theory Spec2Isabelle
  imports Complex_Main
begin

section \<open>Browser performance metrics (packages/tracing/src/browser/metrics.ts)\<close>

text \<open>
  A shallow embedding of \<^verbatim>\<open>MetricsInstrumentation\<close> and of the span synthesis functions
  of \<^verbatim>\<open>metrics.ts\<close>.

  Conventions.
  \<^item> A JavaScript number that is always defined is a \<^typ>\<open>real\<close>: the arithmetic of the
    model is exact, the rounding of IEEE doubles is not modelled.
  \<^item> A number that may be missing is a \<^typ>\<open>real option\<close>. \<open>None\<close> stands for both
    \<^verbatim>\<open>undefined\<close> and \<^verbatim>\<open>NaN\<close>: both are falsy, and \<^verbatim>\<open>undefined / 1000\<close> and
    \<^verbatim>\<open>x + NaN\<close> are \<^verbatim>\<open>NaN\<close>, so \<open>None\<close> is absorbing for the arithmetic used here.
  \<^item> A leading underscore of a source name is written \<open>u_\<close> (\<^verbatim>\<open>_startChild\<close> is
    \<open>u_startChild\<close>), since an Isabelle name starts with a letter.
\<close>

subsection \<open>Numbers\<close>

text \<open>
  Modelled from the spec: \<^verbatim>\<open>msToSec\<close> is imported from \<^verbatim>\<open>../utils\<close>, which is not among
  the sources. The spec describes it as the conversion of milliseconds to seconds.
\<close>

definition msToSec :: "real \<Rightarrow> real" where
  "msToSec time = time / 1000"

text \<open>\<^verbatim>\<open>msToSec(x as number)\<close> on a value that may be \<^verbatim>\<open>undefined\<close>.\<close>

definition msToSec_opt :: "real option \<Rightarrow> real option" where
  "msToSec_opt time = map_option msToSec time"

text \<open>\<^verbatim>\<open>a + b\<close> where \<open>b\<close> may be \<^verbatim>\<open>NaN\<close>.\<close>

definition plus_opt :: "real \<Rightarrow> real option \<Rightarrow> real option" where
  "plus_opt a b = map_option (\<lambda>v. a + v) b"

text \<open>JavaScript truthiness of a number: \<^verbatim>\<open>undefined\<close>, \<^verbatim>\<open>NaN\<close> and \<^verbatim>\<open>0\<close> are falsy.\<close>

definition truthy :: "real option \<Rightarrow> bool" where
  "truthy x = (case x of None \<Rightarrow> False | Some v \<Rightarrow> v \<noteq> 0)"

text \<open>
  The first-hidden timestamp is \<^verbatim>\<open>Infinity\<close> until the page is hidden; every other number
  of the program is finite.
\<close>

datatype jstime = Finite real | Infinity

fun lt_time :: "real \<Rightarrow> jstime \<Rightarrow> bool" where
  "lt_time a (Finite b) = (a < b)"
| "lt_time a Infinity = True"

fun min_time :: "jstime \<Rightarrow> real \<Rightarrow> jstime" where
  "min_time (Finite a) b = Finite (min a b)"
| "min_time Infinity b = Finite b"

subsection \<open>Spans and transactions\<close>

text \<open>
  \<^verbatim>\<open>SpanContext\<close>, with the fields this file sets. \<open>data\<close> is the record built by
  \<^verbatim>\<open>addResourceSpans\<close>, in insertion order; \<open>None\<close> when the context has no \<^verbatim>\<open>data\<close>.
\<close>

record span =
  description :: string
  op :: string
  startTimestamp :: "real option"
  endTimestamp :: "real option"
  data :: "(string \<times> real) list option"

text \<open>
  The transaction, as far as this file reads and writes it: its operation tag, its start
  timestamp (seconds), its child spans in creation order, and the measurements attached
  by \<^verbatim>\<open>setMeasurements\<close>.
\<close>

record transaction =
  tx_op :: string
  tx_startTimestamp :: real
  tx_spans :: "span list"
  tx_measurements :: "(string \<rightharpoonup> real) option"

text \<open>
  Modelled from the spec: \<^verbatim>\<open>Transaction.startChild\<close> lives in \<^verbatim>\<open>../transaction\<close>, which is
  not among the sources. The spec gives its interface: it creates a new child span from the
  context; the child joins the transaction's child-span list.
\<close>

definition startChild :: "transaction \<Rightarrow> span \<Rightarrow> transaction" where
  "startChild transaction ctx = transaction\<lparr>tx_spans := tx_spans transaction @ [ctx]\<rparr>"

text \<open>
  Modelled from the spec: \<^verbatim>\<open>Transaction.setMeasurements\<close>, also of \<^verbatim>\<open>../transaction\<close>,
  attaches the measurement map to the transaction.
\<close>

definition setMeasurements :: "transaction \<Rightarrow> (string \<rightharpoonup> real) \<Rightarrow> transaction" where
  "setMeasurements transaction m = transaction\<lparr>tx_measurements := Some m\<rparr>"

text \<open>
  \<^verbatim>\<open>_startChild\<close>: the guard is \<^verbatim>\<open>startTimestamp && transaction.startTimestamp > startTimestamp\<close>.
\<close>

definition u_startChild :: "transaction \<Rightarrow> span \<Rightarrow> transaction" where
  "u_startChild transaction ctx =
     startChild
       (case startTimestamp ctx of
          None \<Rightarrow> transaction
        | Some ts \<Rightarrow>
            if ts \<noteq> 0 \<and> tx_startTimestamp transaction > ts
            then transaction\<lparr>tx_startTimestamp := ts\<rparr>
            else transaction)
       ctx"

subsection \<open>Performance entries\<close>

text \<open>
  \<^verbatim>\<open>PerformanceEntry\<close>: times are milliseconds relative to the time origin.
\<close>

record PerformanceEntry =
  name :: string
  entryType :: string
  startTime :: real
  duration :: real

text \<open>\<^verbatim>\<open>interface PerformanceEventTiming extends PerformanceEntry\<close>.\<close>

record PerformanceEventTiming = PerformanceEntry +
  processingStart :: real

text \<open>
  An entry of the timeline is read as a \<^verbatim>\<open>Record<string, any>\<close>: beside the fields of
  every entry it has \<^verbatim>\<open>initiatorType\<close> and numeric properties looked up by name
  (\<^verbatim>\<open>entry[`${event}End`]\<close>, \<^verbatim>\<open>'transferSize' in entry\<close>). A name outside the domain of
  \<open>props\<close> is a property the entry does not have.
\<close>

record TimelineEntry = PerformanceEntry +
  initiatorType :: "string option"
  props :: "string \<rightharpoonup> real"

subsection \<open>Span synthesis\<close>

definition addPerformanceNavigationTiming ::
  "transaction \<Rightarrow> TimelineEntry \<Rightarrow> string \<Rightarrow> real \<Rightarrow> transaction" where
  "addPerformanceNavigationTiming transaction entry event timeOrigin =
     (let e_end = props entry (event @ ''End'');
          e_start = props entry (event @ ''Start'')
      in if \<not> truthy e_start \<or> \<not> truthy e_end then transaction
         else u_startChild transaction
                \<lparr>description = event,
                 op = ''browser'',
                 startTimestamp = plus_opt timeOrigin (msToSec_opt e_start),
                 endTimestamp = plus_opt timeOrigin (msToSec_opt e_end),
                 data = None\<rparr>)"

definition addRequest :: "transaction \<Rightarrow> TimelineEntry \<Rightarrow> real \<Rightarrow> transaction" where
  "addRequest transaction entry timeOrigin =
     (let t1 = u_startChild transaction
                 \<lparr>description = ''request'',
                  op = ''browser'',
                  startTimestamp = plus_opt timeOrigin (msToSec_opt (props entry ''requestStart'')),
                  endTimestamp = plus_opt timeOrigin (msToSec_opt (props entry ''responseEnd'')),
                  data = None\<rparr>
      in u_startChild t1
           \<lparr>description = ''response'',
            op = ''browser'',
            startTimestamp = plus_opt timeOrigin (msToSec_opt (props entry ''responseStart'')),
            endTimestamp = plus_opt timeOrigin (msToSec_opt (props entry ''responseEnd'')),
            data = None\<rparr>)"

definition addNavigationSpans :: "transaction \<Rightarrow> TimelineEntry \<Rightarrow> real \<Rightarrow> transaction" where
  "addNavigationSpans transaction entry timeOrigin =
     (let t1 = addPerformanceNavigationTiming transaction entry ''unloadEvent'' timeOrigin;
          t2 = addPerformanceNavigationTiming t1 entry ''domContentLoadedEvent'' timeOrigin;
          t3 = addPerformanceNavigationTiming t2 entry ''loadEvent'' timeOrigin;
          t4 = addPerformanceNavigationTiming t3 entry ''connect'' timeOrigin;
          t5 = addPerformanceNavigationTiming t4 entry ''domainLookup'' timeOrigin
      in addRequest t5 entry timeOrigin)"

text \<open>\<^verbatim>\<open>addMeasureSpans\<close> returns the transaction and the start timestamp of the span.\<close>

definition addMeasureSpans ::
  "transaction \<Rightarrow> TimelineEntry \<Rightarrow> real \<Rightarrow> real \<Rightarrow> real \<Rightarrow> transaction \<times> real" where
  "addMeasureSpans transaction entry startTime_s duration_s timeOrigin =
     (let measureStartTimestamp = timeOrigin + startTime_s;
          measureEndTimestamp = measureStartTimestamp + duration_s
      in (u_startChild transaction
            \<lparr>description = name entry,
             op = entryType entry,
             startTimestamp = Some measureStartTimestamp,
             endTimestamp = Some measureEndTimestamp,
             data = None\<rparr>,
          measureStartTimestamp))"

text \<open>The \<^verbatim>\<open>data\<close> record of a resource span: one key for each size property the entry has.\<close>

definition resource_data :: "TimelineEntry \<Rightarrow> (string \<times> real) list" where
  "resource_data entry =
     (case props entry ''transferSize'' of None \<Rightarrow> [] | Some v \<Rightarrow> [(''Transfer Size'', v)]) @
     (case props entry ''encodedBodySize'' of None \<Rightarrow> [] | Some v \<Rightarrow> [(''Encoded Body Size'', v)]) @
     (case props entry ''decodedBodySize'' of None \<Rightarrow> [] | Some v \<Rightarrow> [(''Decoded Body Size'', v)])"

text \<open>
  The operation tag \<^verbatim>\<open>entry.initiatorType ? `resource.${entry.initiatorType}` : 'resource'\<close>:
  a missing and an empty initiator type are both falsy.
\<close>

definition resource_op :: "string option \<Rightarrow> string" where
  "resource_op it =
     (case it of
        None \<Rightarrow> ''resource''
      | Some s \<Rightarrow> if s = [] then ''resource'' else ''resource.'' @ s)"

text \<open>
  \<^verbatim>\<open>addResourceSpans\<close> returns the transaction and the end timestamp of the span, or
  \<open>None\<close> for \<^verbatim>\<open>undefined\<close>.
\<close>

definition addResourceSpans ::
  "transaction \<Rightarrow> TimelineEntry \<Rightarrow> string \<Rightarrow> real \<Rightarrow> real \<Rightarrow> real
     \<Rightarrow> transaction \<times> real option" where
  "addResourceSpans transaction entry resourceName startTime_s duration_s timeOrigin =
     (if initiatorType entry = Some ''xmlhttprequest'' \<or> initiatorType entry = Some ''fetch''
      then (transaction, None)
      else
        (let startTimestamp_v = timeOrigin + startTime_s;
             endTimestamp_v = startTimestamp_v + duration_s
         in (u_startChild transaction
               \<lparr>description = resourceName,
                op = resource_op (initiatorType entry),
                startTimestamp = Some startTimestamp_v,
                endTimestamp = Some endTimestamp_v,
                data = Some (resource_data entry)\<rparr>,
             Some endTimestamp_v)))"

subsection \<open>Strings\<close>

text \<open>
  \<^verbatim>\<open>s.replace(pat, '')\<close> with a string pattern: the first occurrence of \<open>pat\<close> in \<open>s\<close> is
  removed; \<open>s\<close> is returned as it is when \<open>pat\<close> does not occur.
\<close>

fun js_replace_empty :: "string \<Rightarrow> string \<Rightarrow> string" where
  "js_replace_empty [] pat = []"
| "js_replace_empty (c # cs) pat =
     (if take (length pat) (c # cs) = pat then drop (length pat) (c # cs)
      else c # js_replace_empty cs pat)"

text \<open>\<^verbatim>\<open>s.indexOf(pat) > -1\<close>: \<open>pat\<close> occurs in \<open>s\<close> (the empty string occurs in every string).\<close>

fun js_indexOf_found :: "string \<Rightarrow> string \<Rightarrow> bool" where
  "js_indexOf_found [] pat = (pat = [])"
| "js_indexOf_found (c # cs) pat =
     (take (length pat) (c # cs) = pat \<or> js_indexOf_found cs pat)"

subsection \<open>The host environment\<close>

text \<open>A script element of \<^verbatim>\<open>document.scripts\<close>: its \<^verbatim>\<open>dataset.entry\<close> and its \<^verbatim>\<open>src\<close>.\<close>

record script =
  dataset_entry :: "string option"
  src :: string

text \<open>
  The host is a browser window: \<^verbatim>\<open>window\<close> and \<^verbatim>\<open>document\<close> are bound, so the test
  \<^verbatim>\<open>if (global.document)\<close> of \<^verbatim>\<open>addPerformanceEntries\<close> holds. What may be missing is the
  performance API and the observer API.
  \<^item> \<open>has_performance\<close>: \<^verbatim>\<open>global && global.performance\<close>;
  \<^item> \<open>has_mark\<close>, \<open>has_getEntries\<close>: \<^verbatim>\<open>global.performance.mark\<close>,
    \<^verbatim>\<open>global.performance.getEntries\<close>;
  \<^item> \<open>performance_entries\<close>: what \<^verbatim>\<open>performance.getEntries()\<close> returns, in recording order;
  \<^item> \<open>performance_timeOrigin\<close>: \<^verbatim>\<open>performance.timeOrigin\<close>, in milliseconds;
  \<^item> \<open>performance_now\<close>: the time of the clock, the start time of a new mark;
  \<^item> \<open>supportedEntryTypes\<close>: \<^verbatim>\<open>PerformanceObserver.supportedEntryTypes\<close>, \<open>None\<close> when
    reading it throws (no \<^verbatim>\<open>PerformanceObserver\<close>, or no such property);
  \<^item> \<open>observe_throws ty\<close>: \<^verbatim>\<open>po.observe({ buffered: true, type: ty })\<close> throws;
  \<^item> \<open>has_takeRecords\<close>: \<^verbatim>\<open>po.takeRecords\<close>;
  \<^item> \<open>lcp_records\<close>: the records queued for the observer of \<^verbatim>\<open>_trackLCP\<close> and not yet
    delivered to its callback, which is what \<^verbatim>\<open>po.takeRecords()\<close> returns and empties.
\<close>

record host =
  has_performance :: bool
  has_mark :: bool
  has_getEntries :: bool
  performance_entries :: "TimelineEntry list"
  performance_timeOrigin :: real
  performance_now :: real
  document_visibilityState :: string
  document_scripts :: "script list"
  window_location_origin :: string
  supportedEntryTypes :: "string list option"
  observe_throws :: "string \<Rightarrow> bool"
  has_takeRecords :: bool
  lcp_records :: "PerformanceEntry list"

text \<open>
  Modelled from the spec: \<^verbatim>\<open>performance.mark\<close> is the browser's marking primitive, which
  inserts a zero-duration, named marker into the timeline.
\<close>

definition performance_mark :: "host \<Rightarrow> string \<Rightarrow> host" where
  "performance_mark h markName =
     h\<lparr>performance_entries := performance_entries h @
         [\<lparr>name = markName, entryType = ''mark'', startTime = performance_now h,
           duration = 0, initiatorType = None, props = Map.empty\<rparr>]\<rparr>"

subsection \<open>The instrumentation\<close>

text \<open>
  The four private fields of the class, and what its constructor registers with the host:
  \<^item> \<open>lcp_observer\<close>: the observer of \<^verbatim>\<open>_trackLCP\<close> observes, and \<^verbatim>\<open>_forceLCP\<close> has been
    replaced by the closure that drains it (both happen together, or neither);
  \<^item> \<open>fid_observer\<close>: the observer of \<^verbatim>\<open>_trackFID\<close> observes (it has not disconnected);
  \<^item> \<open>hidden_listener\<close>, \<open>lcp_listener\<close>: the \<^verbatim>\<open>visibilitychange\<close> listener of the
    constructor, and that of \<^verbatim>\<open>_trackLCP\<close>, is still registered (both are \<^verbatim>\<open>once\<close>).
\<close>

record MetricsInstrumentation =
  u_firstHiddenTime :: jstime
  u_lcpFinal :: bool
  u_measurements :: "string \<rightharpoonup> real"
  u_performanceCursor :: nat
  lcp_observer :: bool
  fid_observer :: bool
  hidden_listener :: bool
  lcp_listener :: bool

text \<open>\<^verbatim>\<open>updateLCP\<close>, the closure of \<^verbatim>\<open>_trackLCP\<close>.\<close>

definition updateLCP ::
  "host \<Rightarrow> MetricsInstrumentation \<Rightarrow> PerformanceEntry \<Rightarrow> MetricsInstrumentation" where
  "updateLCP h this entry =
     (if lt_time (startTime entry) (u_firstHiddenTime this)
      then
        (let timeOrigin = msToSec (performance_timeOrigin h);
             startTime_s = msToSec (startTime entry)
         in this\<lparr>u_measurements :=
              (u_measurements this)
                (''lcp'' \<mapsto> startTime entry, ''mark.lcp'' \<mapsto> timeOrigin + startTime_s)\<rparr>)
      else this\<lparr>u_lcpFinal := True\<rparr>)"

text \<open>
  \<^verbatim>\<open>updateFID\<close>, the closure of \<^verbatim>\<open>_trackFID\<close>; \<^verbatim>\<open>po.disconnect()\<close> clears
  \<open>fid_observer\<close>.
\<close>

definition updateFID ::
  "host \<Rightarrow> MetricsInstrumentation \<Rightarrow> PerformanceEventTiming \<Rightarrow> MetricsInstrumentation" where
  "updateFID h this entry =
     (if lt_time (startTime entry) (u_firstHiddenTime this)
      then
        (let fidValue = processingStart entry - startTime entry;
             timeOrigin = msToSec (performance_timeOrigin h);
             startTime_s = msToSec (startTime entry)
         in this\<lparr>u_measurements :=
                   (u_measurements this)
                     (''fid'' \<mapsto> fidValue, ''mark.fid'' \<mapsto> timeOrigin + startTime_s),
                 fid_observer := False\<rparr>)
      else this)"

text \<open>
  \<^verbatim>\<open>po.takeRecords().forEach(updateLCP)\<close>: the queued records go through \<^verbatim>\<open>updateLCP\<close> in
  order, and the queue is empty afterwards.
\<close>

definition takeRecords_updateLCP ::
  "MetricsInstrumentation \<Rightarrow> host \<Rightarrow> MetricsInstrumentation \<times> host" where
  "takeRecords_updateLCP this h =
     (foldl (updateLCP h) this (lcp_records h), h\<lparr>lcp_records := []\<rparr>)"

text \<open>
  \<^verbatim>\<open>_forceLCP\<close>: a no-op until \<^verbatim>\<open>_trackLCP\<close> replaces it, then
  \<^verbatim>\<open>if (po.takeRecords) { po.takeRecords().forEach(updateLCP); }\<close>.
\<close>

definition u_forceLCP ::
  "MetricsInstrumentation \<Rightarrow> host \<Rightarrow> MetricsInstrumentation \<times> host" where
  "u_forceLCP this h =
     (if lcp_observer this
      then (if has_takeRecords h then takeRecords_updateLCP this h else (this, h))
      else (this, h))"

text \<open>
  \<^verbatim>\<open>_trackLCP\<close>: every exception of the \<^verbatim>\<open>try\<close> block is caught, and leaves the instance as
  it was (the observer is created, but observes nothing).
\<close>

definition u_trackLCP :: "host \<Rightarrow> MetricsInstrumentation \<Rightarrow> MetricsInstrumentation" where
  "u_trackLCP h this =
     (case supportedEntryTypes h of
        None \<Rightarrow> this
      | Some types \<Rightarrow>
          if ''largest-contentful-paint'' \<notin> set types then this
          else if observe_throws h ''largest-contentful-paint'' then this
          else this\<lparr>lcp_observer := True, lcp_listener := True\<rparr>)"

definition u_trackFID :: "host \<Rightarrow> MetricsInstrumentation \<Rightarrow> MetricsInstrumentation" where
  "u_trackFID h this =
     (case supportedEntryTypes h of
        None \<Rightarrow> this
      | Some types \<Rightarrow>
          if ''first-input'' \<notin> set types then this
          else if observe_throws h ''first-input'' then this
          else this\<lparr>fid_observer := True\<rparr>)"

text \<open>The field initialisers of the class.\<close>

definition initial_fields :: MetricsInstrumentation where
  "initial_fields =
     \<lparr>u_firstHiddenTime = Finite 0, u_lcpFinal = False, u_measurements = Map.empty,
      u_performanceCursor = 0, lcp_observer = False, fid_observer = False,
      hidden_listener = False, lcp_listener = False\<rparr>"

text \<open>The constructor returns the new instance and the host, whose timeline has the mark.\<close>

definition constructor :: "host \<Rightarrow> MetricsInstrumentation \<times> host" where
  "constructor h =
     (if has_performance h
      then
        (let h1 = (if has_mark h then performance_mark h ''sentry-tracing-init'' else h);
             this1 = initial_fields
               \<lparr>u_firstHiddenTime :=
                  (if document_visibilityState h1 = ''hidden'' then Finite 0 else Infinity),
                hidden_listener := True\<rparr>;
             this2 = u_trackLCP h1 this1;
             this3 = u_trackFID h1 this2
         in (this3, h1))
      else (initial_fields, h))"

subsection \<open>The entry-stream processor\<close>

text \<open>
  What the callback of \<^verbatim>\<open>forEach\<close> in \<^verbatim>\<open>addPerformanceEntries\<close> reads and writes: the
  transaction, \<^verbatim>\<open>this._measurements\<close>, and the two local variables of the method.
\<close>

record pass =
  p_transaction :: transaction
  p_measurements :: "string \<rightharpoonup> real"
  entryScriptStartTimestamp :: "real option"
  tracingInitMarkStartTime :: "real option"

text \<open>The \<^verbatim>\<open>mark\<close>, \<^verbatim>\<open>paint\<close> and \<^verbatim>\<open>measure\<close> case of the switch.\<close>

definition case_measure :: "real \<Rightarrow> pass \<Rightarrow> TimelineEntry \<Rightarrow> pass" where
  "case_measure timeOrigin p entry =
     (let r = addMeasureSpans (p_transaction p) entry
                (msToSec (startTime entry)) (msToSec (duration entry)) timeOrigin;
          startTimestamp_v = snd r;
          p1 = p\<lparr>p_transaction := fst r,
                 tracingInitMarkStartTime :=
                   (if tracingInitMarkStartTime p = None \<and> name entry = ''sentry-tracing-init''
                    then Some startTimestamp_v else tracingInitMarkStartTime p)\<rparr>;
          p2 = (if name entry = ''first-paint''
                then p1\<lparr>p_measurements :=
                        (p_measurements p1)
                          (''fp'' \<mapsto> startTime entry, ''mark.fp'' \<mapsto> startTimestamp_v)\<rparr>
                else p1)
      in if name entry = ''first-contentful-paint''
         then p2\<lparr>p_measurements :=
                 (p_measurements p2)
                   (''fcp'' \<mapsto> startTime entry, ''mark.fcp'' \<mapsto> startTimestamp_v)\<rparr>
         else p2)"

text \<open>The \<^verbatim>\<open>resource\<close> case of the switch.\<close>

definition case_resource :: "host \<Rightarrow> real \<Rightarrow> string option \<Rightarrow> pass \<Rightarrow> TimelineEntry \<Rightarrow> pass" where
  "case_resource h timeOrigin entryScriptSrc p entry =
     (let resourceName = js_replace_empty (name entry) (window_location_origin h);
          r = addResourceSpans (p_transaction p) entry resourceName
                (msToSec (startTime entry)) (msToSec (duration entry)) timeOrigin;
          endTimestamp_v = snd r
      in p\<lparr>p_transaction := fst r,
            entryScriptStartTimestamp :=
              (if entryScriptStartTimestamp p = None \<and>
                  js_indexOf_found (case entryScriptSrc of None \<Rightarrow> [] | Some s \<Rightarrow> s) resourceName
               then endTimestamp_v else entryScriptStartTimestamp p)\<rparr>)"

text \<open>The callback of \<^verbatim>\<open>forEach\<close>, applied to one entry.\<close>

definition forEach_entry :: "host \<Rightarrow> real \<Rightarrow> string option \<Rightarrow> pass \<Rightarrow> TimelineEntry \<Rightarrow> pass" where
  "forEach_entry h timeOrigin entryScriptSrc p entry =
     (let startTime_s = msToSec (startTime entry);
          transaction = p_transaction p
      in if tx_op transaction = ''navigation'' \<and>
            timeOrigin + startTime_s < tx_startTimestamp transaction
         then p
         else if entryType entry = ''navigation''
         then p\<lparr>p_transaction := addNavigationSpans transaction entry timeOrigin\<rparr>
         else if entryType entry = ''mark'' \<or> entryType entry = ''paint'' \<or>
                 entryType entry = ''measure''
         then case_measure timeOrigin p entry
         else if entryType entry = ''resource''
         then case_resource h timeOrigin entryScriptSrc p entry
         else p)"

text \<open>The loop over \<^verbatim>\<open>document.scripts\<close>: the \<^verbatim>\<open>src\<close> of the first script flagged as entry.\<close>

definition find_entryScriptSrc :: "script list \<Rightarrow> string option" where
  "find_entryScriptSrc ss =
     map_option src (find (\<lambda>s. dataset_entry s = Some ''true'') ss)"

text \<open>The \<^verbatim>\<open>evaluation\<close> span, emitted when both local variables are defined.\<close>

definition evaluation_span :: "pass \<Rightarrow> transaction" where
  "evaluation_span p =
     (case entryScriptStartTimestamp p of
        None \<Rightarrow> p_transaction p
      | Some s \<Rightarrow>
          (case tracingInitMarkStartTime p of
             None \<Rightarrow> p_transaction p
           | Some e \<Rightarrow>
               u_startChild (p_transaction p)
                 \<lparr>description = ''evaluation'', op = ''script'',
                  startTimestamp = Some s, endTimestamp = Some e, data = None\<rparr>))"

text \<open>
  \<^verbatim>\<open>addPerformanceEntries\<close> returns the instance, the host (whose observer queue
  \<^verbatim>\<open>_forceLCP\<close> may have emptied) and the transaction. \<^verbatim>\<open>.slice(cursor)\<close> is \<open>drop\<close>, and the
  new cursor is \<^verbatim>\<open>Math.max(performance.getEntries().length - 1, 0)\<close>.
\<close>

definition addPerformanceEntries ::
  "MetricsInstrumentation \<Rightarrow> host \<Rightarrow> transaction
     \<Rightarrow> MetricsInstrumentation \<times> host \<times> transaction" where
  "addPerformanceEntries this h transaction =
     (if \<not> has_performance h \<or> \<not> has_getEntries h then (this, h, transaction)
      else
        (let forced = (if tx_op transaction = ''pageload'' then u_forceLCP this h else (this, h));
             this1 = fst forced;
             h1 = snd forced;
             timeOrigin = msToSec (performance_timeOrigin h1);
             entryScriptSrc = find_entryScriptSrc (document_scripts h1);
             p = foldl (forEach_entry h1 timeOrigin entryScriptSrc)
                   \<lparr>p_transaction = transaction, p_measurements = u_measurements this1,
                    entryScriptStartTimestamp = None, tracingInitMarkStartTime = None\<rparr>
                   (drop (u_performanceCursor this1) (performance_entries h1));
             t1 = evaluation_span p;
             this2 = this1
               \<lparr>u_measurements := p_measurements p,
                u_performanceCursor := nat (max (int (length (performance_entries h1)) - 1) 0)\<rparr>
         in (this2, h1,
             if tx_op t1 = ''pageload'' then setMeasurements t1 (u_measurements this2) else t1)))"

subsection \<open>Events of a session\<close>

text \<open>
  The listener \<^verbatim>\<open>_trackLCP\<close> registers for \<^verbatim>\<open>visibilitychange\<close>.
\<close>

definition lcp_visibilitychange ::
  "MetricsInstrumentation \<Rightarrow> host \<Rightarrow> MetricsInstrumentation \<times> host" where
  "lcp_visibilitychange this h =
     (if u_lcpFinal this then (this, h)
      else if document_visibilityState h = ''hidden''
      then (if has_takeRecords h
            then (let r = takeRecords_updateLCP this h in ((fst r)\<lparr>u_lcpFinal := True\<rparr>, snd r))
            else (this, h))
      else (this, h))"

text \<open>
  A \<^verbatim>\<open>visibilitychange\<close> event with time stamp \<open>timeStamp\<close>, after which the document's
  visibility state is \<open>state\<close>. The listeners run in the order of their registration, each
  at most once in the session (\<^verbatim>\<open>once: true\<close>).
\<close>

definition visibilitychange ::
  "real \<Rightarrow> string \<Rightarrow> MetricsInstrumentation \<Rightarrow> host \<Rightarrow> MetricsInstrumentation \<times> host" where
  "visibilitychange timeStamp state this h =
     (let h1 = h\<lparr>document_visibilityState := state\<rparr>;
          this1 = (if hidden_listener this
                   then this\<lparr>u_firstHiddenTime := min_time (u_firstHiddenTime this) timeStamp,
                             hidden_listener := False\<rparr>
                   else this)
      in if lcp_listener this1
         then lcp_visibilitychange (this1\<lparr>lcp_listener := False\<rparr>) h1
         else (this1, h1))"

text \<open>
  The callback of the LCP observer, \<^verbatim>\<open>entryList.getEntries().forEach(updateLCP)\<close>, run by
  the browser on the queued records.
\<close>

definition lcp_callback ::
  "MetricsInstrumentation \<Rightarrow> host \<Rightarrow> MetricsInstrumentation \<times> host" where
  "lcp_callback this h =
     (if lcp_observer this
      then (foldl (updateLCP h) this (lcp_records h), h\<lparr>lcp_records := []\<rparr>)
      else (this, h))"

text \<open>
  The callback of the FID observer on one batch of entries; a disconnected observer is not
  called. \<^verbatim>\<open>po.disconnect()\<close> inside the callback does not end the \<^verbatim>\<open>forEach\<close> under way.
\<close>

definition fid_callback ::
  "MetricsInstrumentation \<Rightarrow> host \<Rightarrow> PerformanceEventTiming list \<Rightarrow> MetricsInstrumentation" where
  "fid_callback this h batch =
     (if fid_observer this then foldl (updateFID h) this batch else this)"

text \<open>
  What can happen in a session after the constructor: the browser records a timeline
  entry; it queues an LCP candidate for the observer; it delivers the queued candidates;
  it delivers a batch of first-input entries; the visibility changes; the tracing code
  calls \<^verbatim>\<open>addPerformanceEntries\<close> on a transaction.
\<close>

datatype event =
    Timeline_append TimelineEntry
  | LCP_record PerformanceEntry
  | LCP_deliver
  | FID_deliver "PerformanceEventTiming list"
  | Visibility_change real string
  | Add_performance_entries transaction

fun step :: "MetricsInstrumentation \<times> host \<Rightarrow> event \<Rightarrow> MetricsInstrumentation \<times> host" where
  "step (this, h) (Timeline_append e) =
     (this, h\<lparr>performance_entries := performance_entries h @ [e]\<rparr>)"
| "step (this, h) (LCP_record e) =
     (this, if lcp_observer this then h\<lparr>lcp_records := lcp_records h @ [e]\<rparr> else h)"
| "step (this, h) LCP_deliver = lcp_callback this h"
| "step (this, h) (FID_deliver batch) = (fid_callback this h batch, h)"
| "step (this, h) (Visibility_change timeStamp state) = visibilitychange timeStamp state this h"
| "step (this, h) (Add_performance_entries t) =
     (let r = addPerformanceEntries this h t in (fst r, fst (snd r)))"

definition run :: "MetricsInstrumentation \<times> host \<Rightarrow> event list \<Rightarrow> MetricsInstrumentation \<times> host" where
  "run s evs = foldl step s evs"

text \<open>
  The indices of the timeline entries that a call of \<^verbatim>\<open>addPerformanceEntries\<close> in this
  state passes to the callback of \<^verbatim>\<open>forEach\<close>: those of \<^verbatim>\<open>getEntries().slice(cursor)\<close>.
\<close>

definition dispatched :: "MetricsInstrumentation \<Rightarrow> host \<Rightarrow> nat list" where
  "dispatched this h =
     (if \<not> has_performance h \<or> \<not> has_getEntries h then []
      else [u_performanceCursor this ..< length (performance_entries h)])"

text \<open>The dispatched indices of every call of \<^verbatim>\<open>addPerformanceEntries\<close> in a session, in order.\<close>

fun dispatch_log :: "MetricsInstrumentation \<times> host \<Rightarrow> event list \<Rightarrow> nat list list" where
  "dispatch_log s [] = []"
| "dispatch_log s (e # evs) =
     (case e of
        Add_performance_entries t \<Rightarrow> [dispatched (fst s) (snd s)]
      | _ \<Rightarrow> []) @ dispatch_log (step s e) evs"

text \<open>
  The cursor points at an entry of the timeline, or is 0 on an empty timeline: what the
  assignment at the end of \<^verbatim>\<open>addPerformanceEntries\<close> establishes.
\<close>

definition cursor_inv :: "MetricsInstrumentation \<times> host \<Rightarrow> bool" where
  "cursor_inv s = (u_performanceCursor (fst s) \<le> length (performance_entries (snd s)) - 1)"

text \<open>
  No queued LCP candidate starts before the time origin, and no event brings one that does.
\<close>

definition queue_nonneg :: "host \<Rightarrow> bool" where
  "queue_nonneg h = list_all (\<lambda>e. 0 \<le> startTime e) (lcp_records h)"

fun candidate_nonneg :: "event \<Rightarrow> bool" where
  "candidate_nonneg (LCP_record e) = (0 \<le> startTime e)"
| "candidate_nonneg (FID_deliver batch) = list_all (\<lambda>e. 0 \<le> startTime e) batch"
| "candidate_nonneg ev = True"

text \<open>
  The state of a session on a page that was hidden when the instance was made: the
  first-hidden timestamp is finite and at most 0, none of \<open>lcp\<close>, \<open>mark.lcp\<close>, \<open>fid\<close>,
  \<open>mark.fid\<close> is written, and no queued LCP candidate starts before the time origin.
\<close>

definition hidden_inv :: "MetricsInstrumentation \<times> host \<Rightarrow> bool" where
  "hidden_inv s =
     ((case u_firstHiddenTime (fst s) of Finite t \<Rightarrow> t \<le> 0 | Infinity \<Rightarrow> False) \<and>
      u_measurements (fst s) ''lcp'' = None \<and> u_measurements (fst s) ''mark.lcp'' = None \<and>
      u_measurements (fst s) ''fid'' = None \<and> u_measurements (fst s) ''mark.fid'' = None \<and>
      queue_nonneg (snd s))"

subsection \<open>Example inputs\<close>

text \<open>
  A visible page of \<^verbatim>\<open>https://example.com\<close> whose browser has the whole API; the time origin
  is 1000 s.
\<close>

definition ex_host :: host where
  "ex_host =
     \<lparr>has_performance = True, has_mark = True, has_getEntries = True,
      performance_entries = [], performance_timeOrigin = 1000000, performance_now = 20,
      document_visibilityState = ''visible'', document_scripts = [],
      window_location_origin = ''https://example.com'',
      supportedEntryTypes = Some [''largest-contentful-paint'', ''first-input''],
      observe_throws = (\<lambda>ty. False), has_takeRecords = True, lcp_records = []\<rparr>"

text \<open>The same page, loaded in a background tab.\<close>

definition ex_hidden_host :: host where
  "ex_hidden_host = ex_host\<lparr>document_visibilityState := ''hidden''\<rparr>"

definition ex_tx :: transaction where
  "ex_tx =
     \<lparr>tx_op = ''pageload'', tx_startTimestamp = 1000, tx_spans = [], tx_measurements = None\<rparr>"

definition ex_pass :: pass where
  "ex_pass =
     \<lparr>p_transaction = ex_tx, p_measurements = Map.empty,
      entryScriptStartTimestamp = None, tracingInitMarkStartTime = None\<rparr>"

definition ex_ctx :: "real option \<Rightarrow> span" where
  "ex_ctx ts =
     \<lparr>description = ''child'', op = ''test'', startTimestamp = ts, endTimestamp = Some 2000,
      data = None\<rparr>"

definition ex_mark :: "string \<Rightarrow> real \<Rightarrow> TimelineEntry" where
  "ex_mark n t =
     \<lparr>name = n, entryType = ''mark'', startTime = t, duration = 0, initiatorType = None,
      props = Map.empty\<rparr>"

definition ex_lcp :: "real \<Rightarrow> PerformanceEntry" where
  "ex_lcp t =
     \<lparr>name = [], entryType = ''largest-contentful-paint'', startTime = t, duration = 0\<rparr>"

definition ex_fid :: "real \<Rightarrow> real \<Rightarrow> PerformanceEventTiming" where
  "ex_fid t ps =
     \<lparr>name = ''pointerdown'', entryType = ''first-input'', startTime = t, duration = 8,
      processingStart = ps\<rparr>"

definition ex_resource :: "string \<Rightarrow> TimelineEntry" where
  "ex_resource it =
     \<lparr>name = ''https://example.com/api/users'', entryType = ''resource'', startTime = 10,
      duration = 5, initiatorType = Some it, props = [''transferSize'' \<mapsto> 256]\<rparr>"

text \<open>Scenario A of the spec: a navigation entry whose only phase is the domain lookup.\<close>

definition scenario_A_entry :: TimelineEntry where
  "scenario_A_entry =
     \<lparr>name = ''https://example.com/'', entryType = ''navigation'', startTime = 0,
      duration = 0, initiatorType = Some ''navigation'',
      props = [''domainLookupStart'' \<mapsto> 1, ''domainLookupEnd'' \<mapsto> 5]\<rparr>"

text \<open>Scenario B of the spec: a script loaded from the page's own origin.\<close>

definition scenario_B_entry :: TimelineEntry where
  "scenario_B_entry =
     \<lparr>name = ''https://example.com/app.js'', entryType = ''resource'', startTime = 10,
      duration = 5, initiatorType = Some ''script'', props = Map.empty\<rparr>"

text \<open>Scenario D of the spec, and its analogue for the first paint.\<close>

definition scenario_D_entry :: TimelineEntry where
  "scenario_D_entry =
     \<lparr>name = ''first-contentful-paint'', entryType = ''mark'', startTime = 250, duration = 0,
      initiatorType = None, props = Map.empty\<rparr>"

definition ex_first_paint :: TimelineEntry where
  "ex_first_paint =
     \<lparr>name = ''first-paint'', entryType = ''paint'', startTime = 200, duration = 0,
      initiatorType = None, props = Map.empty\<rparr>"

text \<open>A session: two marks, a pass over the timeline, one more mark.\<close>

definition ex_session :: "event list" where
  "ex_session =
     [Timeline_append (ex_mark ''a'' 30), Timeline_append (ex_mark ''b'' 40),
      Add_performance_entries ex_tx, Timeline_append (ex_mark ''c'' 50)]"

section \<open>Properties\<close>

subsection \<open>Unfolding the model on concrete inputs\<close>

lemmas model_defs =
  constructor_def initial_fields_def performance_mark_def u_trackLCP_def u_trackFID_def
  addPerformanceEntries_def u_forceLCP_def takeRecords_updateLCP_def updateLCP_def updateFID_def
  forEach_entry_def case_measure_def case_resource_def find_entryScriptSrc_def
  evaluation_span_def addMeasureSpans_def addResourceSpans_def addNavigationSpans_def
  addPerformanceNavigationTiming_def addRequest_def u_startChild_def startChild_def
  setMeasurements_def msToSec_def msToSec_opt_def plus_opt_def truthy_def resource_op_def
  resource_data_def lcp_visibilitychange_def visibilitychange_def lcp_callback_def
  fid_callback_def run_def dispatched_def

lemmas example_defs =
  ex_host_def ex_hidden_host_def ex_tx_def ex_pass_def ex_ctx_def ex_mark_def ex_lcp_def
  ex_fid_def ex_resource_def scenario_A_entry_def scenario_B_entry_def scenario_D_entry_def
  ex_first_paint_def

subsection \<open>The shared emission helper\<close>

text \<open>
  C4 (as amended). \<^verbatim>\<open>_startChild\<close> pulls the transaction's start timestamp back to the
  context's \<^verbatim>\<open>startTimestamp\<close> when that is truthy (a number other than 0) and earlier
  than the transaction's start; when it is not earlier, or is falsy (0, missing or not a
  number), the transaction's start is unchanged. In every case the context becomes the last
  child span.
\<close>

theorem startChild_pull_back:
  "(startTimestamp ctx = Some ts \<and> ts \<noteq> 0 \<and> ts < tx_startTimestamp t
      \<longrightarrow> tx_startTimestamp (u_startChild t ctx) = ts) \<and>
   (startTimestamp ctx = Some ts \<and> tx_startTimestamp t \<le> ts
      \<longrightarrow> tx_startTimestamp (u_startChild t ctx) = tx_startTimestamp t) \<and>
   (\<not> truthy (startTimestamp ctx)
      \<longrightarrow> tx_startTimestamp (u_startChild t ctx) = tx_startTimestamp t) \<and>
   tx_spans (u_startChild t ctx) = tx_spans t @ [ctx]"
  by (auto simp: u_startChild_def startChild_def truthy_def split: option.splits)

theorem startChild_pull_back_witness:
  "startTimestamp (ex_ctx (Some 3)) = Some 3 \<and> (3::real) \<noteq> 0 \<and> 3 < tx_startTimestamp ex_tx \<and>
   tx_startTimestamp (u_startChild ex_tx (ex_ctx (Some 3))) = 3 \<and>
   startTimestamp (ex_ctx (Some 1007)) = Some 1007 \<and> tx_startTimestamp ex_tx \<le> 1007 \<and>
   tx_startTimestamp (u_startChild ex_tx (ex_ctx (Some 1007))) = tx_startTimestamp ex_tx \<and>
   \<not> truthy (startTimestamp (ex_ctx None)) \<and>
   tx_startTimestamp (u_startChild ex_tx (ex_ctx None)) = tx_startTimestamp ex_tx"
  using startChild_pull_back [of "ex_ctx (Some 3)" 3 ex_tx]
    startChild_pull_back [of "ex_ctx (Some 1007)" 1007 ex_tx]
    startChild_pull_back [of "ex_ctx None" 0 ex_tx]
  by (simp add: ex_ctx_def ex_tx_def truthy_def)

text \<open>
  C4 as stated fails: a context whose \<^verbatim>\<open>startTimestamp\<close> is 0 is earlier than a transaction
  that starts at 1000 s, and the transaction's start stays at 1000 s.
\<close>

theorem startChild_pull_back_counterexample:
  "startTimestamp (ex_ctx (Some 0)) = Some 0 \<and> (0::real) < tx_startTimestamp ex_tx \<and>
   tx_startTimestamp (u_startChild ex_tx (ex_ctx (Some 0))) = 1000"
  by (simp add: ex_ctx_def ex_tx_def u_startChild_def startChild_def)

subsection \<open>Resource entries\<close>

text \<open>
  C7. For a resource entry whose \<^verbatim>\<open>initiatorType\<close> is \<^verbatim>\<open>xmlhttprequest\<close> or \<^verbatim>\<open>fetch\<close>,
  \<^verbatim>\<open>addResourceSpans\<close> returns the transaction as it was and no end timestamp, and the
  callback of \<^verbatim>\<open>addPerformanceEntries\<close> leaves the transaction, with its child spans, as
  it was.
\<close>

theorem xhr_fetch_no_span:
  "initiatorType entry = Some ''xmlhttprequest'' \<or> initiatorType entry = Some ''fetch'' \<Longrightarrow>
   addResourceSpans t entry resourceName st d timeOrigin = (t, None) \<and>
   (entryType entry = ''resource'' \<longrightarrow>
      p_transaction (forEach_entry h timeOrigin entryScriptSrc p entry) = p_transaction p)"
  by (auto simp: addResourceSpans_def forEach_entry_def case_resource_def Let_def)

theorem xhr_fetch_no_span_witness:
  "(initiatorType (ex_resource ''xmlhttprequest'') = Some ''xmlhttprequest'' \<or>
    initiatorType (ex_resource ''xmlhttprequest'') = Some ''fetch'') \<and>
   addResourceSpans ex_tx (ex_resource ''xmlhttprequest'') ''/api/users'' (1 / 100) (1 / 200) 1000
     = (ex_tx, None) \<and>
   entryType (ex_resource ''xmlhttprequest'') = ''resource'' \<and>
   p_transaction (forEach_entry ex_host 1000 None ex_pass (ex_resource ''xmlhttprequest''))
     = p_transaction ex_pass \<and>
   tx_spans (p_transaction (forEach_entry ex_host 1000 None ex_pass (ex_resource ''fetch''))) = []"
  using xhr_fetch_no_span [of "ex_resource ''xmlhttprequest''" ex_tx "''/api/users''"
      "1 / 100" "1 / 200" 1000 ex_host None ex_pass]
    xhr_fetch_no_span [of "ex_resource ''fetch''" ex_tx "''/api/users''"
      "1 / 100" "1 / 200" 1000 ex_host None ex_pass]
  by (simp add: ex_resource_def ex_pass_def ex_tx_def)

subsection \<open>What each operation leaves unchanged\<close>

lemma updateLCP_frame [simp]:
  "u_firstHiddenTime (updateLCP h this e) = u_firstHiddenTime this"
  "u_performanceCursor (updateLCP h this e) = u_performanceCursor this"
  "lcp_observer (updateLCP h this e) = lcp_observer this"
  "fid_observer (updateLCP h this e) = fid_observer this"
  "hidden_listener (updateLCP h this e) = hidden_listener this"
  "lcp_listener (updateLCP h this e) = lcp_listener this"
  by (simp_all add: updateLCP_def Let_def)

lemma updateLCP_other_keys:
  "k \<noteq> ''lcp'' \<Longrightarrow> k \<noteq> ''mark.lcp'' \<Longrightarrow>
   u_measurements (updateLCP h this e) k = u_measurements this k"
  by (simp add: updateLCP_def Let_def)

lemma foldl_updateLCP_frame [simp]:
  "u_firstHiddenTime (foldl (updateLCP h) this es) = u_firstHiddenTime this"
  "u_performanceCursor (foldl (updateLCP h) this es) = u_performanceCursor this"
  "lcp_observer (foldl (updateLCP h) this es) = lcp_observer this"
  "fid_observer (foldl (updateLCP h) this es) = fid_observer this"
  "hidden_listener (foldl (updateLCP h) this es) = hidden_listener this"
  "lcp_listener (foldl (updateLCP h) this es) = lcp_listener this"
  by (induction es arbitrary: this; simp)+

lemma foldl_updateLCP_other_keys:
  "k \<noteq> ''lcp'' \<Longrightarrow> k \<noteq> ''mark.lcp'' \<Longrightarrow>
   u_measurements (foldl (updateLCP h) this es) k = u_measurements this k"
  by (induction es arbitrary: this) (simp_all add: updateLCP_other_keys)

lemma updateFID_frame [simp]:
  "u_firstHiddenTime (updateFID h this e) = u_firstHiddenTime this"
  "u_performanceCursor (updateFID h this e) = u_performanceCursor this"
  "lcp_observer (updateFID h this e) = lcp_observer this"
  "u_lcpFinal (updateFID h this e) = u_lcpFinal this"
  "hidden_listener (updateFID h this e) = hidden_listener this"
  "lcp_listener (updateFID h this e) = lcp_listener this"
  by (simp_all add: updateFID_def Let_def)

lemma foldl_updateFID_frame [simp]:
  "u_firstHiddenTime (foldl (updateFID h) this es) = u_firstHiddenTime this"
  "u_performanceCursor (foldl (updateFID h) this es) = u_performanceCursor this"
  "lcp_observer (foldl (updateFID h) this es) = lcp_observer this"
  "u_lcpFinal (foldl (updateFID h) this es) = u_lcpFinal this"
  "hidden_listener (foldl (updateFID h) this es) = hidden_listener this"
  "lcp_listener (foldl (updateFID h) this es) = lcp_listener this"
  by (induction es arbitrary: this; simp)+

lemma updateFID_other_keys:
  "k \<noteq> ''fid'' \<Longrightarrow> k \<noteq> ''mark.fid'' \<Longrightarrow>
   u_measurements (updateFID h this e) k = u_measurements this k"
  by (simp add: updateFID_def Let_def)

lemma foldl_updateFID_other_keys:
  "k \<noteq> ''fid'' \<Longrightarrow> k \<noteq> ''mark.fid'' \<Longrightarrow>
   u_measurements (foldl (updateFID h) this es) k = u_measurements this k"
  by (induction es arbitrary: this) (simp_all add: updateFID_other_keys)

text \<open>The callback of \<^verbatim>\<open>forEach\<close> writes four keys of the measurements only.\<close>

lemma forEach_entry_other_keys:
  "k \<noteq> ''fp'' \<Longrightarrow> k \<noteq> ''mark.fp'' \<Longrightarrow> k \<noteq> ''fcp'' \<Longrightarrow> k \<noteq> ''mark.fcp'' \<Longrightarrow>
   p_measurements (forEach_entry h timeOrigin s p e) k = p_measurements p k"
  by (simp add: forEach_entry_def case_measure_def case_resource_def Let_def)

lemma foldl_forEach_entry_other_keys:
  "k \<noteq> ''fp'' \<Longrightarrow> k \<noteq> ''mark.fp'' \<Longrightarrow> k \<noteq> ''fcp'' \<Longrightarrow> k \<noteq> ''mark.fcp'' \<Longrightarrow>
   p_measurements (foldl (forEach_entry h timeOrigin s) p es) k = p_measurements p k"
  by (induction es arbitrary: p) (simp_all add: forEach_entry_other_keys)

lemma u_forceLCP_frame [simp]:
  "u_firstHiddenTime (fst (u_forceLCP this h)) = u_firstHiddenTime this"
  "u_performanceCursor (fst (u_forceLCP this h)) = u_performanceCursor this"
  "lcp_observer (fst (u_forceLCP this h)) = lcp_observer this"
  "fid_observer (fst (u_forceLCP this h)) = fid_observer this"
  "hidden_listener (fst (u_forceLCP this h)) = hidden_listener this"
  "lcp_listener (fst (u_forceLCP this h)) = lcp_listener this"
  "performance_entries (snd (u_forceLCP this h)) = performance_entries h"
  "has_performance (snd (u_forceLCP this h)) = has_performance h"
  "has_getEntries (snd (u_forceLCP this h)) = has_getEntries h"
  by (simp_all add: u_forceLCP_def takeRecords_updateLCP_def)

lemma u_forceLCP_other_keys:
  "k \<noteq> ''lcp'' \<Longrightarrow> k \<noteq> ''mark.lcp'' \<Longrightarrow>
   u_measurements (fst (u_forceLCP this h)) k = u_measurements this k"
  by (simp add: u_forceLCP_def takeRecords_updateLCP_def foldl_updateLCP_other_keys)

lemma addPerformanceEntries_cursor:
  "u_performanceCursor (fst (addPerformanceEntries this h t)) =
     (if \<not> has_performance h \<or> \<not> has_getEntries h then u_performanceCursor this
      else length (performance_entries h) - 1)"
  by (auto simp: addPerformanceEntries_def Let_def)

lemma addPerformanceEntries_host [simp]:
  "performance_entries (fst (snd (addPerformanceEntries this h t))) = performance_entries h"
  "has_performance (fst (snd (addPerformanceEntries this h t))) = has_performance h"
  "has_getEntries (fst (snd (addPerformanceEntries this h t))) = has_getEntries h"
  by (simp_all add: addPerformanceEntries_def Let_def)

lemma lcp_visibilitychange_frame [simp]:
  "u_performanceCursor (fst (lcp_visibilitychange this h)) = u_performanceCursor this"
  "u_firstHiddenTime (fst (lcp_visibilitychange this h)) = u_firstHiddenTime this"
  "fid_observer (fst (lcp_visibilitychange this h)) = fid_observer this"
  "lcp_observer (fst (lcp_visibilitychange this h)) = lcp_observer this"
  "performance_entries (snd (lcp_visibilitychange this h)) = performance_entries h"
  "has_performance (snd (lcp_visibilitychange this h)) = has_performance h"
  "has_getEntries (snd (lcp_visibilitychange this h)) = has_getEntries h"
  by (simp_all add: lcp_visibilitychange_def takeRecords_updateLCP_def Let_def)

lemma visibilitychange_frame [simp]:
  "u_performanceCursor (fst (visibilitychange ts st this h)) = u_performanceCursor this"
  "fid_observer (fst (visibilitychange ts st this h)) = fid_observer this"
  "lcp_observer (fst (visibilitychange ts st this h)) = lcp_observer this"
  "performance_entries (snd (visibilitychange ts st this h)) = performance_entries h"
  "has_performance (snd (visibilitychange ts st this h)) = has_performance h"
  "has_getEntries (snd (visibilitychange ts st this h)) = has_getEntries h"
  by (simp_all add: visibilitychange_def Let_def)

lemma lcp_callback_frame [simp]:
  "u_performanceCursor (fst (lcp_callback this h)) = u_performanceCursor this"
  "u_firstHiddenTime (fst (lcp_callback this h)) = u_firstHiddenTime this"
  "fid_observer (fst (lcp_callback this h)) = fid_observer this"
  "lcp_observer (fst (lcp_callback this h)) = lcp_observer this"
  "performance_entries (snd (lcp_callback this h)) = performance_entries h"
  "has_performance (snd (lcp_callback this h)) = has_performance h"
  "has_getEntries (snd (lcp_callback this h)) = has_getEntries h"
  by (simp_all add: lcp_callback_def)

lemma fid_callback_frame [simp]:
  "u_performanceCursor (fid_callback this h b) = u_performanceCursor this"
  "u_firstHiddenTime (fid_callback this h b) = u_firstHiddenTime this"
  "lcp_observer (fid_callback this h b) = lcp_observer this"
  by (simp_all add: fid_callback_def)

text \<open>The API flags never change.\<close>

lemma step_api [simp]:
  "has_performance (snd (step s e)) = has_performance (snd s)"
  "has_getEntries (snd (step s e)) = has_getEntries (snd s)"
  by (cases s; cases e; simp add: Let_def)+

subsection \<open>The cursor\<close>

lemma step_cursor_inv: "cursor_inv s \<Longrightarrow> cursor_inv (step s e)"
  by (cases s; cases e) (auto simp: cursor_inv_def Let_def addPerformanceEntries_cursor)

lemma step_cursor_mono:
  "cursor_inv s \<Longrightarrow> u_performanceCursor (fst s) \<le> u_performanceCursor (fst (step s e))"
  by (cases s; cases e) (auto simp: cursor_inv_def Let_def addPerformanceEntries_cursor)

lemma constructor_cursor_inv: "cursor_inv (constructor h)"
  by (simp add: cursor_inv_def constructor_def Let_def initial_fields_def
      u_trackLCP_def u_trackFID_def split: option.splits)

lemma run_cursor_inv: "cursor_inv s \<Longrightarrow> cursor_inv (run s evs)"
  unfolding run_def by (induction evs arbitrary: s) (simp_all add: step_cursor_inv)

lemma dispatch_log_ge_cursor:
  "cursor_inv s \<Longrightarrow> l \<in> set (dispatch_log s evs) \<Longrightarrow> i \<in> set l \<Longrightarrow>
   u_performanceCursor (fst s) \<le> i"
proof (induction evs arbitrary: s)
  case Nil
  then show ?case by simp
next
  case (Cons e evs)
  from Cons.prems(2) consider
      (now) t where "e = Add_performance_entries t" "l = dispatched (fst s) (snd s)"
    | (later) "l \<in> set (dispatch_log (step s e) evs)"
    by (auto split: event.splits)
  then show ?case
  proof cases
    case now
    with Cons.prems(3) show ?thesis by (auto simp: dispatched_def split: if_splits)
  next
    case later
    have "u_performanceCursor (fst s) \<le> u_performanceCursor (fst (step s e))"
      using Cons.prems(1) by (rule step_cursor_mono)
    also have "\<dots> \<le> i"
      using Cons.IH [OF step_cursor_inv [OF Cons.prems(1)] later Cons.prems(3)] .
    finally show ?thesis .
  qed
qed

lemma dispatched_le_next_cursor:
  "i \<in> set (dispatched (fst s) (snd s)) \<Longrightarrow>
   i \<le> u_performanceCursor (fst (step s (Add_performance_entries t))) \<and>
   u_performanceCursor (fst (step s (Add_performance_entries t))) = last (dispatched (fst s) (snd s))"
  by (cases s) (auto simp: dispatched_def Let_def addPerformanceEntries_cursor split: if_splits)

lemma dispatch_log_again:
  "cursor_inv s \<Longrightarrow> dispatch_log s evs = pre @ l # post \<Longrightarrow> l' \<in> set post \<Longrightarrow>
   i \<in> set l \<Longrightarrow> i \<in> set l' \<Longrightarrow> i = last l"
proof (induction evs arbitrary: s pre)
  case Nil
  then show ?case by simp
next
  case (Cons e evs)
  let ?s' = "step s e"
  have inv': "cursor_inv ?s'" using Cons.prems(1) by (rule step_cursor_inv)
  show ?case
  proof (cases "pre = [] \<and> (\<exists>t. e = Add_performance_entries t)")
    case True
    then obtain t where e: "e = Add_performance_entries t" and pre: "pre = []" by blast
    from Cons.prems(2) e pre have l: "l = dispatched (fst s) (snd s)"
      and post: "post = dispatch_log ?s' evs" by simp_all
    have "u_performanceCursor (fst ?s') \<le> i"
      using dispatch_log_ge_cursor [OF inv'] Cons.prems(3,5) post by blast
    moreover have "i \<le> u_performanceCursor (fst ?s')"
      and "u_performanceCursor (fst ?s') = last l"
      using dispatched_le_next_cursor [of i s t] Cons.prems(4) l e by simp_all
    ultimately show ?thesis by simp
  next
    case False
    then have "\<exists>pre'. dispatch_log ?s' evs = pre' @ l # post"
      using Cons.prems(2) by (cases pre; cases e) auto
    then obtain pre' where "dispatch_log ?s' evs = pre' @ l # post" ..
    from Cons.IH [OF inv' this Cons.prems(3,4,5)] show ?thesis .
  qed
qed

lemma nth_split_two:
  assumes "j < j'" "j' < length xs"
  shows "\<exists>pre post. xs = pre @ xs ! j # post \<and> xs ! j' \<in> set post"
proof -
  have j: "j < length xs" using assms by simp
  have "xs = take j xs @ xs ! j # drop (Suc j) xs"
    using j by (simp add: id_take_nth_drop)
  moreover have "xs ! j' \<in> set (drop (Suc j) xs)"
  proof -
    have "drop (Suc j) xs ! (j' - Suc j) = xs ! j'" using assms by simp
    moreover have "j' - Suc j < length (drop (Suc j) xs)" using assms by simp
    ultimately show ?thesis by (metis nth_mem)
  qed
  ultimately show ?thesis by blast
qed

lemma drop_as_nth: "drop n xs = map (\<lambda>i. xs ! i) [n ..< length xs]"
proof -
  have "drop n xs = drop n (map (\<lambda>i. xs ! i) [0 ..< length xs])" by (simp only: map_nth)
  then show ?thesis by (simp add: drop_map)
qed

text \<open>
  The entries of the timeline are read by \<^verbatim>\<open>addPerformanceEntries\<close> alone: neither
  \<^verbatim>\<open>updateLCP\<close> nor the callback of \<^verbatim>\<open>forEach\<close> looks at them.
\<close>

lemma updateLCP_entries [simp]:
  "updateLCP (h\<lparr>performance_entries := es\<rparr>) = updateLCP h"
  by (intro ext) (simp add: updateLCP_def)

lemma case_resource_entries [simp]:
  "case_resource (h\<lparr>performance_entries := es\<rparr>) = case_resource h"
  by (intro ext) (simp add: case_resource_def Let_def)

lemma forEach_entry_entries [simp]:
  "forEach_entry (h\<lparr>performance_entries := es\<rparr>) = forEach_entry h"
  by (intro ext) (simp add: forEach_entry_def Let_def)

lemma u_forceLCP_entries:
  "fst (u_forceLCP this (h\<lparr>performance_entries := es\<rparr>)) = fst (u_forceLCP this h)"
  "snd (u_forceLCP this (h\<lparr>performance_entries := es\<rparr>))
     = (snd (u_forceLCP this h))\<lparr>performance_entries := es\<rparr>"
  by (simp_all add: u_forceLCP_def takeRecords_updateLCP_def)

text \<open>
  The loop of \<^verbatim>\<open>addPerformanceEntries\<close> runs the callback on the entries at the indices
  \<open>dispatched\<close>, in order, each once.
\<close>

lemma addPerformanceEntries_dispatched:
  assumes "has_performance h" "has_getEntries h"
  shows "addPerformanceEntries this h t =
     (let forced = (if tx_op t = ''pageload'' then u_forceLCP this h else (this, h));
          this1 = fst forced;
          h1 = snd forced;
          p = foldl (forEach_entry h1 (msToSec (performance_timeOrigin h1))
                       (find_entryScriptSrc (document_scripts h1)))
                \<lparr>p_transaction = t, p_measurements = u_measurements this1,
                 entryScriptStartTimestamp = None, tracingInitMarkStartTime = None\<rparr>
                (map (\<lambda>i. performance_entries h ! i) (dispatched this h));
          t1 = evaluation_span p;
          this2 = this1
            \<lparr>u_measurements := p_measurements p,
             u_performanceCursor := length (performance_entries h) - 1\<rparr>
      in (this2, h1,
          if tx_op t1 = ''pageload'' then setMeasurements t1 (u_measurements this2) else t1))"
proof -
  have d: "map (\<lambda>i. performance_entries h ! i) (dispatched this h)
      = drop (u_performanceCursor this) (performance_entries h)"
    using assms by (simp add: dispatched_def drop_as_nth)
  have n: "nat (max (int (length (performance_entries h)) - 1) 0) = length (performance_entries h) - 1"
    by simp
  show ?thesis
    unfolding d using assms
    by (simp add: addPerformanceEntries_def Let_def n del: of_nat_diff)
qed

text \<open>The entries below the cursor do not matter to a call.\<close>

lemma addPerformanceEntries_below_cursor:
  assumes "length pre = u_performanceCursor this" "length pre' = u_performanceCursor this"
  shows "fst (addPerformanceEntries this (h\<lparr>performance_entries := pre' @ rest\<rparr>) t)
       = fst (addPerformanceEntries this (h\<lparr>performance_entries := pre @ rest\<rparr>) t) \<and>
     snd (snd (addPerformanceEntries this (h\<lparr>performance_entries := pre' @ rest\<rparr>) t))
       = snd (snd (addPerformanceEntries this (h\<lparr>performance_entries := pre @ rest\<rparr>) t))"
  using assms
  by (simp add: addPerformanceEntries_def Let_def u_forceLCP_entries)

text \<open>
  C1 (as amended). In every session (the constructor, then any events), the cursor never
  exceeds the number of entries recorded, and an index that two calls of
  \<^verbatim>\<open>addPerformanceEntries\<close> both dispatch is the last index the earlier call dispatched,
  that is, the last entry of the timeline at that call. A call, where the performance API
  is there, dispatches every index from the cursor to the end of the timeline: its result
  is that of running the callback of \<^verbatim>\<open>forEach\<close> on the entries at these indices, in
  order. And the result of a call does not depend on the entries below the cursor: with
  any other entries in their place the instance and the transaction come out the same.
\<close>

theorem cursor_reprocesses_last_entry_only:
  "u_performanceCursor (fst (run (constructor h) evs))
     \<le> length (performance_entries (snd (run (constructor h) evs))) \<and>
   (\<forall>j j' i. j < j' \<and> j' < length (dispatch_log (constructor h) evs) \<and>
       i \<in> set (dispatch_log (constructor h) evs ! j) \<and>
       i \<in> set (dispatch_log (constructor h) evs ! j')
       \<longrightarrow> i = last (dispatch_log (constructor h) evs ! j)) \<and>
   (has_performance h' \<and> has_getEntries h' \<longrightarrow>
      dispatched this h' = [u_performanceCursor this ..< length (performance_entries h')] \<and>
      addPerformanceEntries this h' t =
        (let forced = (if tx_op t = ''pageload'' then u_forceLCP this h' else (this, h'));
             this1 = fst forced;
             h1 = snd forced;
             p = foldl (forEach_entry h1 (msToSec (performance_timeOrigin h1))
                          (find_entryScriptSrc (document_scripts h1)))
                   \<lparr>p_transaction = t, p_measurements = u_measurements this1,
                    entryScriptStartTimestamp = None, tracingInitMarkStartTime = None\<rparr>
                   (map (\<lambda>i. performance_entries h' ! i) (dispatched this h'));
             t1 = evaluation_span p;
             this2 = this1
               \<lparr>u_measurements := p_measurements p,
                u_performanceCursor := length (performance_entries h') - 1\<rparr>
         in (this2, h1,
             if tx_op t1 = ''pageload'' then setMeasurements t1 (u_measurements this2) else t1))) \<and>
   (length pre = u_performanceCursor this \<and> length pre' = u_performanceCursor this \<longrightarrow>
      fst (addPerformanceEntries this (h'\<lparr>performance_entries := pre' @ rest\<rparr>) t)
        = fst (addPerformanceEntries this (h'\<lparr>performance_entries := pre @ rest\<rparr>) t) \<and>
      snd (snd (addPerformanceEntries this (h'\<lparr>performance_entries := pre' @ rest\<rparr>) t))
        = snd (snd (addPerformanceEntries this (h'\<lparr>performance_entries := pre @ rest\<rparr>) t)))"
proof (intro conjI allI impI)
  have "cursor_inv (run (constructor h) evs)"
    by (rule run_cursor_inv [OF constructor_cursor_inv])
  then show "u_performanceCursor (fst (run (constructor h) evs))
     \<le> length (performance_entries (snd (run (constructor h) evs)))"
    by (simp add: cursor_inv_def)
next
  fix j j' i
  let ?log = "dispatch_log (constructor h) evs"
  assume a: "j < j' \<and> j' < length ?log \<and> i \<in> set (?log ! j) \<and> i \<in> set (?log ! j')"
  then obtain pre post where "?log = pre @ ?log ! j # post" "?log ! j' \<in> set post"
    using nth_split_two [of j j' ?log] by blast
  then show "i = last (?log ! j)"
    using dispatch_log_again [OF constructor_cursor_inv, where l = "?log ! j" and l' = "?log ! j'"] a
    by blast
next
  assume "has_performance h' \<and> has_getEntries h'"
  then show "dispatched this h' = [u_performanceCursor this ..< length (performance_entries h')]"
    by (simp add: dispatched_def)
next
  assume "has_performance h' \<and> has_getEntries h'"
  then show "addPerformanceEntries this h' t =
        (let forced = (if tx_op t = ''pageload'' then u_forceLCP this h' else (this, h'));
             this1 = fst forced;
             h1 = snd forced;
             p = foldl (forEach_entry h1 (msToSec (performance_timeOrigin h1))
                          (find_entryScriptSrc (document_scripts h1)))
                   \<lparr>p_transaction = t, p_measurements = u_measurements this1,
                    entryScriptStartTimestamp = None, tracingInitMarkStartTime = None\<rparr>
                   (map (\<lambda>i. performance_entries h' ! i) (dispatched this h'));
             t1 = evaluation_span p;
             this2 = this1
               \<lparr>u_measurements := p_measurements p,
                u_performanceCursor := length (performance_entries h') - 1\<rparr>
         in (this2, h1,
             if tx_op t1 = ''pageload'' then setMeasurements t1 (u_measurements this2) else t1))"
    by (intro addPerformanceEntries_dispatched) simp_all
next
  assume a: "length pre = u_performanceCursor this \<and> length pre' = u_performanceCursor this"
  then show "fst (addPerformanceEntries this (h'\<lparr>performance_entries := pre' @ rest\<rparr>) t)
        = fst (addPerformanceEntries this (h'\<lparr>performance_entries := pre @ rest\<rparr>) t)"
    and "snd (snd (addPerformanceEntries this (h'\<lparr>performance_entries := pre' @ rest\<rparr>) t))
        = snd (snd (addPerformanceEntries this (h'\<lparr>performance_entries := pre @ rest\<rparr>) t))"
    using addPerformanceEntries_below_cursor [where pre = pre and pre' = pre' and this = this
        and h = h' and rest = rest and t = t] by simp_all
qed

text \<open>
  The witness: two marks are recorded after the constructor's, a pass follows, then a
  fourth mark. The cursor is 2 now; the next pass dispatches the indices 2 and 3 and emits
  the spans \<open>b\<close> and \<open>c\<close>, index 2 for the second time, and other entries below the
  cursor make no difference to it.
\<close>

theorem cursor_reprocesses_last_entry_only_witness:
  "dispatch_log (constructor ex_host) (ex_session @ [Add_performance_entries ex_tx])
     = [[0, 1, 2], [2, 3]] \<and>
   (0::nat) < 1 \<and> (1::nat) < length [[0::nat, 1, 2], [2, 3]] \<and>
   (2::nat) \<in> set ([[0, 1, 2], [2, 3]] ! 0) \<and>
   (2::nat) \<in> set ([[0, 1, 2], [2, 3]] ! 1) \<and>
   (2::nat) = last ([[0, 1, 2], [2, 3]] ! 0) \<and>
   u_performanceCursor (fst (run (constructor ex_host)
     (ex_session @ [Add_performance_entries ex_tx]))) = 3 \<and>
   length (performance_entries (snd (run (constructor ex_host)
     (ex_session @ [Add_performance_entries ex_tx])))) = 4 \<and>
   has_performance (snd (run (constructor ex_host) ex_session)) \<and>
   has_getEntries (snd (run (constructor ex_host) ex_session)) \<and>
   dispatched (fst (run (constructor ex_host) ex_session))
     (snd (run (constructor ex_host) ex_session)) = [2, 3] \<and>
   map description (tx_spans (snd (snd (addPerformanceEntries
     (fst (run (constructor ex_host) ex_session))
     (snd (run (constructor ex_host) ex_session)) ex_tx)))) = [''b'', ''c''] \<and>
   length [ex_mark ''sentry-tracing-init'' 20, ex_mark ''a'' 30]
     = u_performanceCursor (fst (run (constructor ex_host) ex_session)) \<and>
   length [ex_mark ''x'' 1, ex_mark ''y'' 2]
     = u_performanceCursor (fst (run (constructor ex_host) ex_session)) \<and>
   map description (tx_spans (snd (snd (addPerformanceEntries
     (fst (run (constructor ex_host) ex_session))
     ((snd (run (constructor ex_host) ex_session))
        \<lparr>performance_entries :=
           [ex_mark ''x'' 1, ex_mark ''y'' 2] @ [ex_mark ''b'' 40, ex_mark ''c'' 50]\<rparr>)
     ex_tx)))) = [''b'', ''c'']"
proof -
  note T = cursor_reprocesses_last_entry_only [where h = ex_host
      and evs = "ex_session @ [Add_performance_entries ex_tx]"
      and h' = "snd (run (constructor ex_host) ex_session)"
      and this = "fst (run (constructor ex_host) ex_session)" and t = ex_tx
      and pre = "[ex_mark ''sentry-tracing-init'' 20, ex_mark ''a'' 30]"
      and pre' = "[ex_mark ''x'' 1, ex_mark ''y'' 2]"
      and rest = "[ex_mark ''b'' 40, ex_mark ''c'' 50]"]
  have api: "has_performance (snd (run (constructor ex_host) ex_session)) \<and>
      has_getEntries (snd (run (constructor ex_host) ex_session))"
    by (simp add: run_def ex_session_def Let_def constructor_def performance_mark_def ex_host_def)
  have len: "length [ex_mark ''sentry-tracing-init'' 20, ex_mark ''a'' 30]
        = u_performanceCursor (fst (run (constructor ex_host) ex_session)) \<and>
      length [ex_mark ''x'' 1, ex_mark ''y'' 2]
        = u_performanceCursor (fst (run (constructor ex_host) ex_session))"
    by (simp add: run_def ex_session_def Let_def addPerformanceEntries_cursor constructor_def
        performance_mark_def ex_host_def)
  note bound = T [THEN conjunct1]
  note again = T [THEN conjunct2, THEN conjunct1]
  note slice = T [THEN conjunct2, THEN conjunct2, THEN conjunct1, THEN mp, OF api, THEN conjunct1]
  note below = T [THEN conjunct2, THEN conjunct2, THEN conjunct2, THEN mp, OF len, THEN conjunct2]
  show ?thesis
    using bound again slice below
    by (simp add: model_defs ex_session_def ex_host_def ex_tx_def ex_mark_def Let_def upt_rec)
qed

text \<open>
  C1 as stated fails. After the constructor the timeline holds the mark
  \<^verbatim>\<open>sentry-tracing-init\<close>, at index 0. The first call of \<^verbatim>\<open>addPerformanceEntries\<close> turns
  it into a span; after one more mark \<open>a\<close>, the second call turns both into spans, the
  first mark for the second time; the third call, with no new entry, turns \<open>a\<close> into a
  span again, and leaves the first mark, now below the cursor, alone.
\<close>

theorem cursor_reprocessing_counterexample:
  "dispatch_log (constructor ex_host)
     [Add_performance_entries ex_tx, Timeline_append (ex_mark ''a'' 30),
      Add_performance_entries ex_tx, Add_performance_entries ex_tx] = [[0], [0, 1], [1]] \<and>
   map description (tx_spans (snd (snd (addPerformanceEntries
     (fst (constructor ex_host)) (snd (constructor ex_host)) ex_tx))))
     = [''sentry-tracing-init''] \<and>
   map description (tx_spans (snd (snd (addPerformanceEntries
     (fst (run (constructor ex_host)
        [Add_performance_entries ex_tx, Timeline_append (ex_mark ''a'' 30)]))
     (snd (run (constructor ex_host)
        [Add_performance_entries ex_tx, Timeline_append (ex_mark ''a'' 30)])) ex_tx))))
     = [''sentry-tracing-init'', ''a''] \<and>
   map description (tx_spans (snd (snd (addPerformanceEntries
     (fst (run (constructor ex_host)
        [Add_performance_entries ex_tx, Timeline_append (ex_mark ''a'' 30),
         Add_performance_entries ex_tx]))
     (snd (run (constructor ex_host)
        [Add_performance_entries ex_tx, Timeline_append (ex_mark ''a'' 30),
         Add_performance_entries ex_tx])) ex_tx))))
     = [''a'']"
  by (simp add: model_defs ex_host_def ex_tx_def ex_mark_def Let_def upt_rec)

subsection \<open>The observers\<close>

text \<open>
  C5. An LCP candidate handed to \<^verbatim>\<open>updateLCP\<close>, and a first-input entry handed to
  \<^verbatim>\<open>updateFID\<close>, leaves the measurements as they were when its \<^verbatim>\<open>startTime\<close> is not
  before the first-hidden timestamp, and writes \<open>lcp\<close> and \<open>mark.lcp\<close> (\<open>fid\<close> and
  \<open>mark.fid\<close>) when it is before it. The last conjunct reads the test: a time is not before
  the first-hidden timestamp exactly when that timestamp is finite and at most the time.
\<close>

theorem visibility_cutoff:
  "(\<not> lt_time (startTime e) (u_firstHiddenTime this)
      \<longrightarrow> u_measurements (updateLCP h this e) = u_measurements this) \<and>
   (lt_time (startTime e) (u_firstHiddenTime this)
      \<longrightarrow> u_measurements (updateLCP h this e) ''lcp'' = Some (startTime e) \<and>
          u_measurements (updateLCP h this e) ''mark.lcp''
            = Some (msToSec (performance_timeOrigin h) + msToSec (startTime e))) \<and>
   (\<not> lt_time (startTime f) (u_firstHiddenTime this)
      \<longrightarrow> u_measurements (updateFID h this f) = u_measurements this) \<and>
   (lt_time (startTime f) (u_firstHiddenTime this)
      \<longrightarrow> u_measurements (updateFID h this f) ''fid'' = Some (processingStart f - startTime f) \<and>
          u_measurements (updateFID h this f) ''mark.fid''
            = Some (msToSec (performance_timeOrigin h) + msToSec (startTime f))) \<and>
   (\<not> lt_time a (u_firstHiddenTime this)
      \<longleftrightarrow> (\<exists>fh. u_firstHiddenTime this = Finite fh \<and> fh \<le> a))"
  by (cases "u_firstHiddenTime this") (auto simp: updateLCP_def updateFID_def Let_def)

text \<open>
  The witness: a page hidden at 500 ms, candidates starting at 800 ms and at 300 ms.
\<close>

theorem visibility_cutoff_witness:
  "\<not> lt_time (startTime (ex_lcp 800))
        (u_firstHiddenTime (fst (run (constructor ex_host) [Visibility_change 500 ''hidden'']))) \<and>
   u_measurements (updateLCP ex_host
        (fst (run (constructor ex_host) [Visibility_change 500 ''hidden''])) (ex_lcp 800))
     = u_measurements (fst (run (constructor ex_host) [Visibility_change 500 ''hidden''])) \<and>
   lt_time (startTime (ex_lcp 300))
        (u_firstHiddenTime (fst (run (constructor ex_host) [Visibility_change 500 ''hidden'']))) \<and>
   u_measurements (updateLCP ex_host
        (fst (run (constructor ex_host) [Visibility_change 500 ''hidden''])) (ex_lcp 300)) ''lcp''
     = Some 300 \<and>
   \<not> lt_time (startTime (ex_fid 800 810))
        (u_firstHiddenTime (fst (run (constructor ex_host) [Visibility_change 500 ''hidden'']))) \<and>
   u_measurements (updateFID ex_host
        (fst (run (constructor ex_host) [Visibility_change 500 ''hidden''])) (ex_fid 800 810))
     = u_measurements (fst (run (constructor ex_host) [Visibility_change 500 ''hidden''])) \<and>
   lt_time (startTime (ex_fid 300 304))
        (u_firstHiddenTime (fst (run (constructor ex_host) [Visibility_change 500 ''hidden'']))) \<and>
   u_measurements (updateFID ex_host
        (fst (run (constructor ex_host) [Visibility_change 500 ''hidden''])) (ex_fid 300 304)) ''fid''
     = Some 4 \<and>
   u_measurements (updateFID ex_host
        (fst (run (constructor ex_host) [Visibility_change 500 ''hidden''])) (ex_fid 300 304)) ''mark.fid''
     = Some (10003 / 10)"
  using visibility_cutoff [of "ex_lcp 800"
      "fst (run (constructor ex_host) [Visibility_change 500 ''hidden''])" ex_host "ex_fid 800 810" 0]
    visibility_cutoff [of "ex_lcp 300"
      "fst (run (constructor ex_host) [Visibility_change 500 ''hidden''])" ex_host "ex_fid 300 304" 0]
  by (simp add: model_defs ex_host_def ex_lcp_def ex_fid_def Let_def)

lemma updateFID_qualifying:
  "lt_time (startTime e) (u_firstHiddenTime this) \<Longrightarrow>
   u_measurements (updateFID h this e) ''fid'' = Some (processingStart e - startTime e) \<and>
   u_measurements (updateFID h this e) ''mark.fid''
     = Some (msToSec (performance_timeOrigin h) + msToSec (startTime e)) \<and>
   \<not> fid_observer (updateFID h this e)"
  by (simp add: updateFID_def Let_def)

lemma updateFID_not_qualifying:
  "\<not> lt_time (startTime e) (u_firstHiddenTime this) \<Longrightarrow> updateFID h this e = this"
  by (simp add: updateFID_def)

lemma foldl_updateFID_snoc_filter:
  "filter (\<lambda>e. lt_time (startTime e) (u_firstHiddenTime this)) batch \<noteq> [] \<Longrightarrow>
   u_measurements (foldl (updateFID h) this batch) ''fid''
     = Some (processingStart (last (filter (\<lambda>e. lt_time (startTime e) (u_firstHiddenTime this)) batch))
             - startTime (last (filter (\<lambda>e. lt_time (startTime e) (u_firstHiddenTime this)) batch))) \<and>
   u_measurements (foldl (updateFID h) this batch) ''mark.fid''
     = Some (msToSec (performance_timeOrigin h)
             + msToSec (startTime (last (filter (\<lambda>e. lt_time (startTime e) (u_firstHiddenTime this)) batch)))) \<and>
   \<not> fid_observer (foldl (updateFID h) this batch)"
proof (induction batch rule: rev_induct)
  case Nil
  then show ?case by simp
next
  case (snoc e batch)
  let ?q = "\<lambda>e. lt_time (startTime e) (u_firstHiddenTime this)"
  show ?case
  proof (cases "?q e")
    case True
    then have "lt_time (startTime e) (u_firstHiddenTime (foldl (updateFID h) this batch))"
      by simp
    from updateFID_qualifying [OF this, of h] True show ?thesis by simp
  next
    case False
    then have "\<not> lt_time (startTime e) (u_firstHiddenTime (foldl (updateFID h) this batch))"
      by simp
    from updateFID_not_qualifying [OF this, of h] False snoc show ?thesis by simp
  qed
qed

text \<open>Once the observer has disconnected, no event writes \<open>fid\<close> or \<open>mark.fid\<close>.\<close>

lemma forEach_entry_fid:
  "p_measurements (forEach_entry h timeOrigin s p e) ''fid'' = p_measurements p ''fid''"
  "p_measurements (forEach_entry h timeOrigin s p e) ''mark.fid'' = p_measurements p ''mark.fid''"
  by (simp_all add: forEach_entry_other_keys)

lemma addPerformanceEntries_other_keys:
  "k \<noteq> ''fp'' \<Longrightarrow> k \<noteq> ''mark.fp'' \<Longrightarrow> k \<noteq> ''fcp'' \<Longrightarrow> k \<noteq> ''mark.fcp'' \<Longrightarrow>
   k \<noteq> ''lcp'' \<Longrightarrow> k \<noteq> ''mark.lcp'' \<Longrightarrow>
   u_measurements (fst (addPerformanceEntries this h t)) k = u_measurements this k"
  by (simp add: addPerformanceEntries_def Let_def foldl_forEach_entry_other_keys
      u_forceLCP_other_keys)

lemma addPerformanceEntries_fid_observer [simp]:
  "fid_observer (fst (addPerformanceEntries this h t)) = fid_observer this"
  by (simp add: addPerformanceEntries_def Let_def)

lemma lcp_visibilitychange_other_keys:
  "k \<noteq> ''lcp'' \<Longrightarrow> k \<noteq> ''mark.lcp'' \<Longrightarrow>
   u_measurements (fst (lcp_visibilitychange this h)) k = u_measurements this k"
  by (simp add: lcp_visibilitychange_def takeRecords_updateLCP_def foldl_updateLCP_other_keys)

lemma visibilitychange_other_keys:
  "k \<noteq> ''lcp'' \<Longrightarrow> k \<noteq> ''mark.lcp'' \<Longrightarrow>
   u_measurements (fst (visibilitychange ts st this h)) k = u_measurements this k"
  by (simp add: visibilitychange_def Let_def lcp_visibilitychange_other_keys)

lemma lcp_callback_other_keys:
  "k \<noteq> ''lcp'' \<Longrightarrow> k \<noteq> ''mark.lcp'' \<Longrightarrow>
   u_measurements (fst (lcp_callback this h)) k = u_measurements this k"
  by (simp add: lcp_callback_def foldl_updateLCP_other_keys)

lemma step_disconnected:
  "\<not> fid_observer (fst s) \<Longrightarrow>
   \<not> fid_observer (fst (step s e)) \<and>
   u_measurements (fst (step s e)) ''fid'' = u_measurements (fst s) ''fid'' \<and>
   u_measurements (fst (step s e)) ''mark.fid'' = u_measurements (fst s) ''mark.fid''"
  by (cases s; cases e)
    (simp_all add: Let_def fid_callback_def addPerformanceEntries_other_keys
      visibilitychange_other_keys lcp_callback_other_keys)

lemma run_disconnected:
  "\<not> fid_observer (fst s) \<Longrightarrow>
   \<not> fid_observer (fst (run s evs)) \<and>
   u_measurements (fst (run s evs)) ''fid'' = u_measurements (fst s) ''fid'' \<and>
   u_measurements (fst (run s evs)) ''mark.fid'' = u_measurements (fst s) ''mark.fid''"
  unfolding run_def
proof (induction evs arbitrary: s)
  case Nil
  then show ?case by simp
next
  case (Cons e evs)
  from step_disconnected [OF Cons.prems, of e] Cons.IH [of "step s e"]
  show ?case by simp
qed

text \<open>
  C3 (as amended). When the FID observer, still connected, is called with a batch that has
  an entry starting before the first-hidden timestamp, \<open>fid\<close> and \<open>mark.fid\<close> are those
  of the last such entry of the batch, the observer is disconnected, and no event of the
  rest of the session changes \<open>fid\<close> or \<open>mark.fid\<close>.
\<close>

theorem fid_single_batch:
  assumes "fid_observer this"
    and "filter (\<lambda>e. lt_time (startTime e) (u_firstHiddenTime this)) batch \<noteq> []"
  shows "u_measurements (fid_callback this h batch) ''fid''
       = Some (processingStart (last (filter (\<lambda>e. lt_time (startTime e) (u_firstHiddenTime this)) batch))
               - startTime (last (filter (\<lambda>e. lt_time (startTime e) (u_firstHiddenTime this)) batch))) \<and>
     u_measurements (fid_callback this h batch) ''mark.fid''
       = Some (msToSec (performance_timeOrigin h)
               + msToSec (startTime (last (filter (\<lambda>e. lt_time (startTime e) (u_firstHiddenTime this)) batch)))) \<and>
     \<not> fid_observer (fid_callback this h batch) \<and>
     (\<forall>h' evs.
        u_measurements (fst (run (fid_callback this h batch, h') evs)) ''fid''
          = u_measurements (fid_callback this h batch) ''fid'' \<and>
        u_measurements (fst (run (fid_callback this h batch, h') evs)) ''mark.fid''
          = u_measurements (fid_callback this h batch) ''mark.fid'')"
proof -
  have cb: "fid_callback this h batch = foldl (updateFID h) this batch"
    using assms(1) by (simp add: fid_callback_def)
  note f = foldl_updateFID_snoc_filter [OF assms(2), of h]
  have "\<not> fid_observer (fst (fid_callback this h batch, h'))" for h' :: host
    using f cb by simp
  from run_disconnected [OF this] f cb show ?thesis by simp
qed

theorem fid_single_batch_witness:
  "fid_observer (fst (constructor ex_host)) \<and>
   filter (\<lambda>e. lt_time (startTime e) (u_firstHiddenTime (fst (constructor ex_host))))
     [ex_fid 10 12] \<noteq> [] \<and>
   u_measurements (fid_callback (fst (constructor ex_host)) ex_host [ex_fid 10 12]) ''fid''
     = Some 2 \<and>
   u_measurements (fid_callback (fst (constructor ex_host)) ex_host [ex_fid 10 12]) ''mark.fid''
     = Some (100001 / 100) \<and>
   \<not> fid_observer (fid_callback (fst (constructor ex_host)) ex_host [ex_fid 10 12]) \<and>
   u_measurements (fst (run (fid_callback (fst (constructor ex_host)) ex_host [ex_fid 10 12], ex_host)
      [FID_deliver [ex_fid 20 25], Add_performance_entries ex_tx])) ''fid'' = Some 2"
  using fid_single_batch [of "fst (constructor ex_host)" "[ex_fid 10 12]" ex_host]
  by (simp add: model_defs ex_host_def ex_fid_def Let_def)

text \<open>
  C3 as stated fails. Two entries of one batch both start before the first-hidden
  timestamp: the first writes \<open>fid = 2\<close>, and the second, processed after it in the same
  \<^verbatim>\<open>forEach\<close>, writes \<open>fid = 5\<close>.
\<close>

theorem fid_single_write_counterexample:
  "lt_time (startTime (ex_fid 10 12)) (u_firstHiddenTime (fst (constructor ex_host))) \<and>
   lt_time (startTime (ex_fid 20 25)) (u_firstHiddenTime (fst (constructor ex_host))) \<and>
   u_measurements (updateFID ex_host (fst (constructor ex_host)) (ex_fid 10 12)) ''fid'' = Some 2 \<and>
   fid_callback (fst (constructor ex_host)) ex_host [ex_fid 10 12, ex_fid 20 25]
     = updateFID ex_host (updateFID ex_host (fst (constructor ex_host)) (ex_fid 10 12)) (ex_fid 20 25) \<and>
   u_measurements (fid_callback (fst (constructor ex_host)) ex_host [ex_fid 10 12, ex_fid 20 25]) ''fid''
     = Some 5"
  by (simp add: model_defs ex_host_def ex_fid_def Let_def)

subsection \<open>A page hidden from the start\<close>

lemma not_lt_time_nonneg:
  "(case fh of Finite t \<Rightarrow> t \<le> 0 | Infinity \<Rightarrow> False) \<Longrightarrow> 0 \<le> a \<Longrightarrow> \<not> lt_time a fh"
  by (cases fh) auto

lemma foldl_updateLCP_hidden:
  "(case u_firstHiddenTime this of Finite t \<Rightarrow> t \<le> 0 | Infinity \<Rightarrow> False) \<Longrightarrow>
   list_all (\<lambda>e. 0 \<le> startTime e) es \<Longrightarrow>
   u_measurements (foldl (updateLCP h) this es) = u_measurements this"
proof (induction es arbitrary: this)
  case Nil
  then show ?case by simp
next
  case (Cons e es)
  have "\<not> lt_time (startTime e) (u_firstHiddenTime this)"
    using Cons.prems by (simp add: not_lt_time_nonneg)
  then have "u_measurements (updateLCP h this e) = u_measurements this"
    by (simp add: updateLCP_def)
  moreover have "u_measurements (foldl (updateLCP h) (updateLCP h this e) es)
      = u_measurements (updateLCP h this e)"
    using Cons.prems by (intro Cons.IH) simp_all
  ultimately show ?case by simp
qed

lemma foldl_updateFID_hidden:
  "(case u_firstHiddenTime this of Finite t \<Rightarrow> t \<le> 0 | Infinity \<Rightarrow> False) \<Longrightarrow>
   list_all (\<lambda>e. 0 \<le> startTime e) es \<Longrightarrow>
   u_measurements (foldl (updateFID h) this es) = u_measurements this"
proof (induction es arbitrary: this)
  case Nil
  then show ?case by simp
next
  case (Cons e es)
  have "\<not> lt_time (startTime e) (u_firstHiddenTime this)"
    using Cons.prems by (simp add: not_lt_time_nonneg)
  then have "updateFID h this e = this"
    by (simp add: updateFID_def)
  then show ?case using Cons by simp
qed

lemma min_time_hidden:
  "(case fh of Finite t \<Rightarrow> t \<le> 0 | Infinity \<Rightarrow> False) \<Longrightarrow>
   (case min_time fh ts of Finite t \<Rightarrow> t \<le> 0 | Infinity \<Rightarrow> False)"
  by (cases fh) auto

lemma step_hidden_inv:
  assumes "hidden_inv s" "candidate_nonneg e"
  shows "hidden_inv (step s e)"
proof -
  obtain this h where s: "s = (this, h)" by (cases s)
  from assms(1) s have
    fh: "(case u_firstHiddenTime this of Finite t \<Rightarrow> t \<le> 0 | Infinity \<Rightarrow> False)"
    and m: "u_measurements this ''lcp'' = None" "u_measurements this ''mark.lcp'' = None"
      "u_measurements this ''fid'' = None" "u_measurements this ''mark.fid'' = None"
    and q: "list_all (\<lambda>e. 0 \<le> startTime e) (lcp_records h)"
    by (simp_all add: hidden_inv_def queue_nonneg_def)
  note drain = foldl_updateLCP_hidden [OF fh q]
  show ?thesis
  proof (cases e)
    case (Timeline_append x)
    then show ?thesis using s fh m q by (simp add: hidden_inv_def queue_nonneg_def)
  next
    case (LCP_record x)
    then show ?thesis using s fh m q assms(2) by (simp add: hidden_inv_def queue_nonneg_def)
  next
    case LCP_deliver
    then show ?thesis using s fh m q drain
      by (simp add: hidden_inv_def queue_nonneg_def lcp_callback_def)
  next
    case (FID_deliver batch)
    then have "list_all (\<lambda>e. 0 \<le> startTime e) batch" using assms(2) by simp
    from foldl_updateFID_hidden [OF fh this] FID_deliver show ?thesis using s fh m q
      by (simp add: hidden_inv_def queue_nonneg_def fid_callback_def)
  next
    case (Visibility_change ts st)
    let ?this1 = "this\<lparr>u_firstHiddenTime := min_time (u_firstHiddenTime this) ts,
                       hidden_listener := False, lcp_listener := False\<rparr>"
    have fh1: "(case u_firstHiddenTime ?this1 of Finite t \<Rightarrow> t \<le> 0 | Infinity \<Rightarrow> False)"
      using min_time_hidden [OF fh] by simp
    have d1: "u_measurements (foldl (updateLCP h') ?this1 (lcp_records h)) = u_measurements this"
      for h' using foldl_updateLCP_hidden [OF fh1 q, of h'] by simp
    have fh2: "(case u_firstHiddenTime (this\<lparr>lcp_listener := False\<rparr>) of Finite t \<Rightarrow> t \<le> 0 | Infinity \<Rightarrow> False)"
      using fh by simp
    have d2: "u_measurements (foldl (updateLCP h') (this\<lparr>lcp_listener := False\<rparr>) (lcp_records h)) = u_measurements this"
      for h' using foldl_updateLCP_hidden [OF fh2 q, of h'] by simp
    show ?thesis using Visibility_change s fh fh1 m q d1 d2
      by (simp add: hidden_inv_def queue_nonneg_def visibilitychange_def
          lcp_visibilitychange_def takeRecords_updateLCP_def Let_def)
  next
    case (Add_performance_entries t)
    have keys: "u_measurements (fst (addPerformanceEntries this h t)) k = u_measurements this k"
      if "k \<in> {''lcp'', ''mark.lcp'', ''fid'', ''mark.fid''}" for k
    proof -
      have f: "u_measurements (fst (u_forceLCP this h)) = u_measurements this"
        using drain by (simp add: u_forceLCP_def takeRecords_updateLCP_def)
      show ?thesis using that f
        by (auto simp: addPerformanceEntries_def Let_def foldl_forEach_entry_other_keys)
    qed
    have fhk: "u_firstHiddenTime (fst (addPerformanceEntries this h t)) = u_firstHiddenTime this"
      by (simp add: addPerformanceEntries_def Let_def)
    have qk: "list_all (\<lambda>e. 0 \<le> startTime e) (lcp_records (fst (snd (addPerformanceEntries this h t))))"
      using q by (simp add: addPerformanceEntries_def Let_def u_forceLCP_def takeRecords_updateLCP_def)
    show ?thesis using Add_performance_entries s fh m keys fhk qk
      by (simp add: hidden_inv_def queue_nonneg_def Let_def)
  qed
qed

lemma run_hidden_inv:
  "hidden_inv s \<Longrightarrow> list_all candidate_nonneg evs \<Longrightarrow> hidden_inv (run s evs)"
  unfolding run_def
  by (induction evs arbitrary: s) (simp_all add: step_hidden_inv)

lemma constructor_hidden:
  "document_visibilityState h = ''hidden'' \<Longrightarrow>
   u_firstHiddenTime (fst (constructor h)) = Finite 0 \<and>
   u_measurements (fst (constructor h)) = Map.empty \<and>
   lcp_records (snd (constructor h)) = lcp_records h"
  by (simp add: constructor_def initial_fields_def Let_def u_trackLCP_def u_trackFID_def
      performance_mark_def split: option.splits)

text \<open>
  C10. When the document is hidden at construction, the first-hidden timestamp is 0, and
  in every session whose LCP candidates and first-input entries (those queued before the
  constructor too) start at or after the time origin, none of \<open>lcp\<close>, \<open>mark.lcp\<close>,
  \<open>fid\<close>, \<open>mark.fid\<close> is ever written.
\<close>

theorem hidden_at_construction:
  assumes "document_visibilityState h = ''hidden''"
    and "queue_nonneg h" and "list_all candidate_nonneg evs"
  shows "u_firstHiddenTime (fst (constructor h)) = Finite 0 \<and>
     u_measurements (fst (run (constructor h) evs)) ''lcp'' = None \<and>
     u_measurements (fst (run (constructor h) evs)) ''mark.lcp'' = None \<and>
     u_measurements (fst (run (constructor h) evs)) ''fid'' = None \<and>
     u_measurements (fst (run (constructor h) evs)) ''mark.fid'' = None"
proof -
  note c = constructor_hidden [OF assms(1)]
  have "hidden_inv (constructor h)"
    using c assms(2) by (simp add: hidden_inv_def queue_nonneg_def)
  from run_hidden_inv [OF this assms(3)] c show ?thesis
    by (simp add: hidden_inv_def)
qed

theorem hidden_at_construction_witness:
  "document_visibilityState ex_hidden_host = ''hidden'' \<and> queue_nonneg ex_hidden_host \<and>
   list_all candidate_nonneg
     [LCP_record (ex_lcp 0), LCP_deliver, FID_deliver [ex_fid 10 12],
      Visibility_change 500 ''visible'', LCP_record (ex_lcp 800),
      Add_performance_entries ex_tx] \<and>
   u_firstHiddenTime (fst (constructor ex_hidden_host)) = Finite 0 \<and>
   u_measurements (fst (run (constructor ex_hidden_host)
     [LCP_record (ex_lcp 0), LCP_deliver, FID_deliver [ex_fid 10 12],
      Visibility_change 500 ''visible'', LCP_record (ex_lcp 800),
      Add_performance_entries ex_tx])) ''lcp'' = None \<and>
   u_measurements (fst (run (constructor ex_hidden_host)
     [LCP_record (ex_lcp 0), LCP_deliver, FID_deliver [ex_fid 10 12],
      Visibility_change 500 ''visible'', LCP_record (ex_lcp 800),
      Add_performance_entries ex_tx])) ''fid'' = None"
  using hidden_at_construction [of ex_hidden_host
     "[LCP_record (ex_lcp 0), LCP_deliver, FID_deliver [ex_fid 10 12],
      Visibility_change 500 ''visible'', LCP_record (ex_lcp 800),
      Add_performance_entries ex_tx]"]
  by (simp add: ex_hidden_host_def ex_host_def ex_lcp_def ex_fid_def queue_nonneg_def)

subsection \<open>The force-flush after the final flag\<close>

text \<open>
  C2, evaluated on a session. The page is hidden at 500 ms and visible again at 700 ms. A
  candidate that starts at 800 ms is delivered: the final flag is set and \<open>lcp\<close> is not
  written. The browser then queues a candidate whose \<^verbatim>\<open>startTime\<close> is 300 ms (its load time:
  the render time of a cross-origin image is not exposed), and \<^verbatim>\<open>addPerformanceEntries\<close> is
  called on a page-load transaction before the observer's callback runs. \<^verbatim>\<open>_forceLCP\<close> does
  not read the final flag: it drains the queue through \<^verbatim>\<open>updateLCP\<close>, which writes
  \<open>lcp = 300\<close> and \<open>mark.lcp = 1000.3\<close>.
\<close>

theorem force_flush_after_final:
  "u_lcpFinal (fst (run (constructor ex_host)
     [Visibility_change 500 ''hidden'', Visibility_change 700 ''visible'',
      LCP_record (ex_lcp 800), LCP_deliver])) \<and>
   u_firstHiddenTime (fst (run (constructor ex_host)
     [Visibility_change 500 ''hidden'', Visibility_change 700 ''visible'',
      LCP_record (ex_lcp 800), LCP_deliver])) = Finite 500 \<and>
   u_measurements (fst (run (constructor ex_host)
     [Visibility_change 500 ''hidden'', Visibility_change 700 ''visible'',
      LCP_record (ex_lcp 800), LCP_deliver])) ''lcp'' = None \<and>
   u_measurements (fst (run (constructor ex_host)
     [Visibility_change 500 ''hidden'', Visibility_change 700 ''visible'',
      LCP_record (ex_lcp 800), LCP_deliver,
      LCP_record (ex_lcp 300), Add_performance_entries ex_tx])) ''lcp'' = Some 300 \<and>
   u_measurements (fst (run (constructor ex_host)
     [Visibility_change 500 ''hidden'', Visibility_change 700 ''visible'',
      LCP_record (ex_lcp 800), LCP_deliver,
      LCP_record (ex_lcp 300), Add_performance_entries ex_tx])) ''mark.lcp'' = Some (10003 / 10)"
  by (simp add: model_defs ex_host_def ex_tx_def ex_lcp_def Let_def)

subsection \<open>Navigation entries\<close>

lemma u_startChild_spans [simp]: "tx_spans (u_startChild t ctx) = tx_spans t @ [ctx]"
  by (simp add: u_startChild_def startChild_def split: option.splits)

lemma u_startChild_op [simp]: "tx_op (u_startChild t ctx) = tx_op t"
  by (simp add: u_startChild_def startChild_def split: option.splits)

lemma addPerformanceNavigationTiming_spans:
  "tx_spans (addPerformanceNavigationTiming t e ev timeOrigin) =
     (if truthy (props e (ev @ ''Start'')) \<and> truthy (props e (ev @ ''End''))
      then tx_spans t @
        [\<lparr>description = ev, op = ''browser'',
          startTimestamp = plus_opt timeOrigin (msToSec_opt (props e (ev @ ''Start''))),
          endTimestamp = plus_opt timeOrigin (msToSec_opt (props e (ev @ ''End''))),
          data = None\<rparr>]
      else tx_spans t)"
  by (simp add: addPerformanceNavigationTiming_def Let_def)

lemma addPerformanceNavigationTiming_descriptions:
  "map description (tx_spans (addPerformanceNavigationTiming t e ev timeOrigin)) =
     map description (tx_spans t) @
     filter (\<lambda>ev. truthy (props e (ev @ ''Start'')) \<and> truthy (props e (ev @ ''End''))) [ev]"
  by (simp add: addPerformanceNavigationTiming_spans)

lemma addRequest_spans:
  "tx_spans (addRequest t e timeOrigin) = tx_spans t @
     [\<lparr>description = ''request'', op = ''browser'',
       startTimestamp = plus_opt timeOrigin (msToSec_opt (props e ''requestStart'')),
       endTimestamp = plus_opt timeOrigin (msToSec_opt (props e ''responseEnd'')),
       data = None\<rparr>,
      \<lparr>description = ''response'', op = ''browser'',
       startTimestamp = plus_opt timeOrigin (msToSec_opt (props e ''responseStart'')),
       endTimestamp = plus_opt timeOrigin (msToSec_opt (props e ''responseEnd'')),
       data = None\<rparr>]"
  by (simp add: addRequest_def Let_def)

lemma addNavigationSpans_descriptions:
  "map description (tx_spans (addNavigationSpans t e timeOrigin)) =
     map description (tx_spans t) @
     filter (\<lambda>ev. truthy (props e (ev @ ''Start'')) \<and> truthy (props e (ev @ ''End'')))
       [''unloadEvent'', ''domContentLoadedEvent'', ''loadEvent'', ''connect'', ''domainLookup''] @
     [''request'', ''response'']"
proof -
  have f: "filter P [a, b, c, d, g] = filter P [a] @ filter P [b] @ filter P [c] @ filter P [d] @ filter P [g]"
    for P :: "string \<Rightarrow> bool" and a b c d g
    by simp
  show ?thesis
    unfolding addNavigationSpans_def Let_def f
    by (simp only: addRequest_spans addPerformanceNavigationTiming_descriptions map_append
        list.map span.simps append_assoc)
qed

lemma addNavigationSpans_scenario_A:
  assumes "props e ''domainLookupStart'' = Some 1" "props e ''domainLookupEnd'' = Some 5"
    and "\<forall>ev \<in> set [''unloadEvent'', ''domContentLoadedEvent'', ''loadEvent'', ''connect''].
           \<not> (truthy (props e (ev @ ''Start'')) \<and> truthy (props e (ev @ ''End'')))"
  shows "tx_spans (addNavigationSpans t e timeOrigin) = tx_spans t @
     [\<lparr>description = ''domainLookup'', op = ''browser'',
       startTimestamp = Some (timeOrigin + 1 / 1000), endTimestamp = Some (timeOrigin + 5 / 1000),
       data = None\<rparr>,
      \<lparr>description = ''request'', op = ''browser'',
       startTimestamp = plus_opt timeOrigin (msToSec_opt (props e ''requestStart'')),
       endTimestamp = plus_opt timeOrigin (msToSec_opt (props e ''responseEnd'')),
       data = None\<rparr>,
      \<lparr>description = ''response'', op = ''browser'',
       startTimestamp = plus_opt timeOrigin (msToSec_opt (props e ''responseStart'')),
       endTimestamp = plus_opt timeOrigin (msToSec_opt (props e ''responseEnd'')),
       data = None\<rparr>]"
proof -
  have n: "addPerformanceNavigationTiming t' e ev timeOrigin = t'"
    if "ev \<in> set [''unloadEvent'', ''domContentLoadedEvent'', ''loadEvent'', ''connect'']" for t' ev
    using assms(3) that by (auto simp: addPerformanceNavigationTiming_def Let_def)
  have d: "tx_spans (addPerformanceNavigationTiming t e ''domainLookup'' timeOrigin) = tx_spans t @
     [\<lparr>description = ''domainLookup'', op = ''browser'',
       startTimestamp = Some (timeOrigin + 1 / 1000), endTimestamp = Some (timeOrigin + 5 / 1000),
       data = None\<rparr>]"
    using assms(1,2)
    by (simp add: addPerformanceNavigationTiming_spans truthy_def plus_opt_def msToSec_opt_def msToSec_def)
  show ?thesis
    unfolding addNavigationSpans_def Let_def
    by (simp add: n addRequest_spans d)
qed

text \<open>
  C6 (as amended). \<^verbatim>\<open>addPerformanceNavigationTiming\<close> emits the span of a phase exactly
  when the phase's start and end are both truthy; \<^verbatim>\<open>addNavigationSpans\<close> emits, in this
  order, the spans of the phases that have both, then \<open>request\<close> and \<open>response\<close>, which
  it emits for every entry, whatever properties the entry has. In Scenario A, where the
  domain lookup runs from 1 ms to 5 ms and no other phase has both timestamps truthy, the
  spans emitted are \<open>domainLookup\<close>, \<open>request\<close> and \<open>response\<close>.
\<close>

theorem navigation_phase_spans:
  "tx_spans (addPerformanceNavigationTiming t e ev timeOrigin) =
     (if truthy (props e (ev @ ''Start'')) \<and> truthy (props e (ev @ ''End''))
      then tx_spans t @
        [\<lparr>description = ev, op = ''browser'',
          startTimestamp = plus_opt timeOrigin (msToSec_opt (props e (ev @ ''Start''))),
          endTimestamp = plus_opt timeOrigin (msToSec_opt (props e (ev @ ''End''))),
          data = None\<rparr>]
      else tx_spans t) \<and>
   map description (tx_spans (addNavigationSpans t e timeOrigin)) =
     map description (tx_spans t) @
     filter (\<lambda>ev. truthy (props e (ev @ ''Start'')) \<and> truthy (props e (ev @ ''End'')))
       [''unloadEvent'', ''domContentLoadedEvent'', ''loadEvent'', ''connect'', ''domainLookup''] @
     [''request'', ''response''] \<and>
   (props e ''domainLookupStart'' = Some 1 \<and> props e ''domainLookupEnd'' = Some 5 \<and>
    (\<forall>ev \<in> set [''unloadEvent'', ''domContentLoadedEvent'', ''loadEvent'', ''connect''].
           \<not> (truthy (props e (ev @ ''Start'')) \<and> truthy (props e (ev @ ''End''))))
    \<longrightarrow> tx_spans (addNavigationSpans t e timeOrigin) = tx_spans t @
     [\<lparr>description = ''domainLookup'', op = ''browser'',
       startTimestamp = Some (timeOrigin + 1 / 1000), endTimestamp = Some (timeOrigin + 5 / 1000),
       data = None\<rparr>,
      \<lparr>description = ''request'', op = ''browser'',
       startTimestamp = plus_opt timeOrigin (msToSec_opt (props e ''requestStart'')),
       endTimestamp = plus_opt timeOrigin (msToSec_opt (props e ''responseEnd'')),
       data = None\<rparr>,
      \<lparr>description = ''response'', op = ''browser'',
       startTimestamp = plus_opt timeOrigin (msToSec_opt (props e ''responseStart'')),
       endTimestamp = plus_opt timeOrigin (msToSec_opt (props e ''responseEnd'')),
       data = None\<rparr>])"
  using addPerformanceNavigationTiming_spans addNavigationSpans_descriptions
    addNavigationSpans_scenario_A
  by blast

theorem navigation_phase_spans_witness:
  "props scenario_A_entry ''domainLookupStart'' = Some 1 \<and>
   props scenario_A_entry ''domainLookupEnd'' = Some 5 \<and>
   \<not> (truthy (props scenario_A_entry ''unloadEventStart'') \<and> truthy (props scenario_A_entry ''unloadEventEnd'')) \<and>
   \<not> (truthy (props scenario_A_entry ''domContentLoadedEventStart'') \<and>
      truthy (props scenario_A_entry ''domContentLoadedEventEnd'')) \<and>
   \<not> (truthy (props scenario_A_entry ''loadEventStart'') \<and> truthy (props scenario_A_entry ''loadEventEnd'')) \<and>
   \<not> (truthy (props scenario_A_entry ''connectStart'') \<and> truthy (props scenario_A_entry ''connectEnd'')) \<and>
   tx_spans (addNavigationSpans ex_tx scenario_A_entry 1000) =
     [\<lparr>description = ''domainLookup'', op = ''browser'',
       startTimestamp = Some 1000.001, endTimestamp = Some 1000.005, data = None\<rparr>,
      \<lparr>description = ''request'', op = ''browser'',
       startTimestamp = None, endTimestamp = None, data = None\<rparr>,
      \<lparr>description = ''response'', op = ''browser'',
       startTimestamp = None, endTimestamp = None, data = None\<rparr>]"
  using navigation_phase_spans [of ex_tx scenario_A_entry "''domainLookup''" 1000]
  by (simp add: scenario_A_entry_def ex_tx_def truthy_def plus_opt_def msToSec_opt_def)

text \<open>
  C6 as stated fails: the entry of Scenario A has none of \<^verbatim>\<open>requestStart\<close>,
  \<^verbatim>\<open>responseStart\<close> and \<^verbatim>\<open>responseEnd\<close>, and the \<open>request\<close> and \<open>response\<close> spans are
  emitted all the same.
\<close>

theorem request_spans_counterexample:
  "props scenario_A_entry ''requestStart'' = None \<and>
   props scenario_A_entry ''responseStart'' = None \<and>
   props scenario_A_entry ''responseEnd'' = None \<and>
   map description (tx_spans (addNavigationSpans ex_tx scenario_A_entry 1000))
     = [''domainLookup'', ''request'', ''response'']"
  by (simp add: model_defs scenario_A_entry_def ex_tx_def Let_def)

subsection \<open>Scenarios of the entry-stream processor\<close>

lemma u_forceLCP_host [simp]:
  "window_location_origin (snd (u_forceLCP this h)) = window_location_origin h"
  "performance_timeOrigin (snd (u_forceLCP this h)) = performance_timeOrigin h"
  "document_scripts (snd (u_forceLCP this h)) = document_scripts h"
  by (simp_all add: u_forceLCP_def takeRecords_updateLCP_def)



lemma forEach_entry_paint:
  assumes "entryType e = ''mark'' \<or> entryType e = ''paint'' \<or> entryType e = ''measure''"
    and "\<not> (tx_op (p_transaction p) = ''navigation'' \<and>
             timeOrigin + startTime e / 1000 < tx_startTimestamp (p_transaction p))"
  shows "(name e = ''first-contentful-paint'' \<and> startTime e = 250 \<longrightarrow>
       p_measurements (forEach_entry h timeOrigin entryScriptSrc p e) =
         (p_measurements p)(''fcp'' \<mapsto> 250, ''mark.fcp'' \<mapsto> timeOrigin + 0.25)) \<and>
     (name e = ''first-paint'' \<longrightarrow>
       p_measurements (forEach_entry h timeOrigin entryScriptSrc p e) =
         (p_measurements p)(''fp'' \<mapsto> startTime e,
                             ''mark.fp'' \<mapsto> timeOrigin + startTime e / 1000))"
  using assms
  by (auto simp: forEach_entry_def case_measure_def addMeasureSpans_def msToSec_def Let_def)

text \<open>
  C9. Scenario D: an entry of type mark, paint or measure that reaches the switch (it is
  not skipped by a navigation transaction that started after it) and is named
  \<open>first-contentful-paint\<close>, with start time 250 ms, writes \<open>fcp = 250\<close> and
  \<open>mark.fcp = timeOrigin + 0.25\<close>; one named \<open>first-paint\<close> writes \<open>fp\<close>, its start
  time in milliseconds, and \<open>mark.fp\<close>, the time origin plus its start time in seconds.
  The first half is about the callback of \<^verbatim>\<open>forEach\<close>, the second about a call of
  \<^verbatim>\<open>addPerformanceEntries\<close> whose only unprocessed entry this is.
\<close>

theorem scenario_D_measurements:
  assumes "entryType e = ''mark'' \<or> entryType e = ''paint'' \<or> entryType e = ''measure''"
  shows "(\<not> (tx_op (p_transaction p) = ''navigation'' \<and>
             timeOrigin + startTime e / 1000 < tx_startTimestamp (p_transaction p)) \<longrightarrow>
      (name e = ''first-contentful-paint'' \<and> startTime e = 250 \<longrightarrow>
         p_measurements (forEach_entry h timeOrigin entryScriptSrc p e) =
           (p_measurements p)(''fcp'' \<mapsto> 250, ''mark.fcp'' \<mapsto> timeOrigin + 0.25)) \<and>
      (name e = ''first-paint'' \<longrightarrow>
         p_measurements (forEach_entry h timeOrigin entryScriptSrc p e) =
           (p_measurements p)(''fp'' \<mapsto> startTime e,
                               ''mark.fp'' \<mapsto> timeOrigin + startTime e / 1000))) \<and>
     (has_performance h \<and> has_getEntries h \<and>
      drop (u_performanceCursor this) (performance_entries h) = [e] \<and>
      \<not> (tx_op t = ''navigation'' \<and>
          performance_timeOrigin h / 1000 + startTime e / 1000 < tx_startTimestamp t) \<longrightarrow>
      (name e = ''first-contentful-paint'' \<and> startTime e = 250 \<longrightarrow>
         u_measurements (fst (addPerformanceEntries this h t)) ''fcp'' = Some 250 \<and>
         u_measurements (fst (addPerformanceEntries this h t)) ''mark.fcp''
           = Some (performance_timeOrigin h / 1000 + 0.25)) \<and>
      (name e = ''first-paint'' \<longrightarrow>
         u_measurements (fst (addPerformanceEntries this h t)) ''fp'' = Some (startTime e) \<and>
         u_measurements (fst (addPerformanceEntries this h t)) ''mark.fp''
           = Some (performance_timeOrigin h / 1000 + startTime e / 1000)))"
proof (intro conjI impI)
  assume "\<not> (tx_op (p_transaction p) = ''navigation'' \<and>
             timeOrigin + startTime e / 1000 < tx_startTimestamp (p_transaction p))"
    and "name e = ''first-contentful-paint'' \<and> startTime e = 250"
  then show "p_measurements (forEach_entry h timeOrigin entryScriptSrc p e) =
           (p_measurements p)(''fcp'' \<mapsto> 250, ''mark.fcp'' \<mapsto> timeOrigin + 0.25)"
    using forEach_entry_paint [OF assms] by blast
next
  assume "\<not> (tx_op (p_transaction p) = ''navigation'' \<and>
             timeOrigin + startTime e / 1000 < tx_startTimestamp (p_transaction p))"
    and "name e = ''first-paint''"
  then show "p_measurements (forEach_entry h timeOrigin entryScriptSrc p e) =
           (p_measurements p)(''fp'' \<mapsto> startTime e,
                               ''mark.fp'' \<mapsto> timeOrigin + startTime e / 1000)"
    using forEach_entry_paint [OF assms] by blast
next
  assume a: "has_performance h \<and> has_getEntries h \<and>
      drop (u_performanceCursor this) (performance_entries h) = [e] \<and>
      \<not> (tx_op t = ''navigation'' \<and>
          performance_timeOrigin h / 1000 + startTime e / 1000 < tx_startTimestamp t)"
    and n: "name e = ''first-contentful-paint'' \<and> startTime e = 250"
  let ?p0 = "\<lparr>p_transaction = t,
      p_measurements = u_measurements (fst (if tx_op t = ''pageload'' then u_forceLCP this h else (this, h))),
      entryScriptStartTimestamp = None, tracingInitMarkStartTime = None\<rparr>"
  have m: "u_measurements (fst (addPerformanceEntries this h t)) =
      p_measurements (forEach_entry (snd (if tx_op t = ''pageload'' then u_forceLCP this h else (this, h)))
         (performance_timeOrigin h / 1000)
         (find_entryScriptSrc (document_scripts h)) ?p0 e)"
    using a by (simp add: addPerformanceEntries_def Let_def msToSec_def)
  have "\<not> (tx_op (p_transaction ?p0) = ''navigation'' \<and>
      performance_timeOrigin h / 1000 + startTime e / 1000 < tx_startTimestamp (p_transaction ?p0))"
    using a by simp
  from forEach_entry_paint [OF assms this] n m
  show "u_measurements (fst (addPerformanceEntries this h t)) ''fcp'' = Some 250"
    and "u_measurements (fst (addPerformanceEntries this h t)) ''mark.fcp''
           = Some (performance_timeOrigin h / 1000 + 0.25)"
    by simp_all
next
  assume a: "has_performance h \<and> has_getEntries h \<and>
      drop (u_performanceCursor this) (performance_entries h) = [e] \<and>
      \<not> (tx_op t = ''navigation'' \<and>
          performance_timeOrigin h / 1000 + startTime e / 1000 < tx_startTimestamp t)"
    and n: "name e = ''first-paint''"
  let ?p0 = "\<lparr>p_transaction = t,
      p_measurements = u_measurements (fst (if tx_op t = ''pageload'' then u_forceLCP this h else (this, h))),
      entryScriptStartTimestamp = None, tracingInitMarkStartTime = None\<rparr>"
  have m: "u_measurements (fst (addPerformanceEntries this h t)) =
      p_measurements (forEach_entry (snd (if tx_op t = ''pageload'' then u_forceLCP this h else (this, h)))
         (performance_timeOrigin h / 1000)
         (find_entryScriptSrc (document_scripts h)) ?p0 e)"
    using a by (simp add: addPerformanceEntries_def Let_def msToSec_def)
  have "\<not> (tx_op (p_transaction ?p0) = ''navigation'' \<and>
      performance_timeOrigin h / 1000 + startTime e / 1000 < tx_startTimestamp (p_transaction ?p0))"
    using a by simp
  from forEach_entry_paint [OF assms this] n m
  show "u_measurements (fst (addPerformanceEntries this h t)) ''fp'' = Some (startTime e)"
    and "u_measurements (fst (addPerformanceEntries this h t)) ''mark.fp''
           = Some (performance_timeOrigin h / 1000 + startTime e / 1000)"
    by simp_all
qed

theorem scenario_D_measurements_witness:
  "(entryType scenario_D_entry = ''mark'' \<or> entryType scenario_D_entry = ''paint'' \<or>
    entryType scenario_D_entry = ''measure'') \<and>
   \<not> (tx_op (p_transaction ex_pass) = ''navigation'' \<and>
      1000 + startTime scenario_D_entry / 1000 < tx_startTimestamp (p_transaction ex_pass)) \<and>
   name scenario_D_entry = ''first-contentful-paint'' \<and> startTime scenario_D_entry = 250 \<and>
   p_measurements (forEach_entry (ex_host\<lparr>performance_entries := [scenario_D_entry]\<rparr>) 1000 None ex_pass scenario_D_entry) ''fcp'' = Some 250 \<and>
   p_measurements (forEach_entry (ex_host\<lparr>performance_entries := [scenario_D_entry]\<rparr>) 1000 None ex_pass scenario_D_entry) ''mark.fcp''
     = Some 1000.25 \<and>
   (entryType ex_first_paint = ''mark'' \<or> entryType ex_first_paint = ''paint'' \<or>
    entryType ex_first_paint = ''measure'') \<and>
   name ex_first_paint = ''first-paint'' \<and>
   p_measurements (forEach_entry ex_host 1000 None ex_pass ex_first_paint) ''fp'' = Some 200 \<and>
   p_measurements (forEach_entry ex_host 1000 None ex_pass ex_first_paint) ''mark.fp''
     = Some 1000.2 \<and>
   has_performance (ex_host\<lparr>performance_entries := [scenario_D_entry]\<rparr>) \<and>
   has_getEntries (ex_host\<lparr>performance_entries := [scenario_D_entry]\<rparr>) \<and>
   drop (u_performanceCursor initial_fields)
     (performance_entries (ex_host\<lparr>performance_entries := [scenario_D_entry]\<rparr>))
     = [scenario_D_entry] \<and>
   u_measurements (fst (addPerformanceEntries initial_fields
     (ex_host\<lparr>performance_entries := [scenario_D_entry]\<rparr>) ex_tx)) ''fcp'' = Some 250 \<and>
   u_measurements (fst (addPerformanceEntries initial_fields
     (ex_host\<lparr>performance_entries := [scenario_D_entry]\<rparr>) ex_tx)) ''mark.fcp'' = Some 1000.25"
  using scenario_D_measurements [where e = scenario_D_entry and p = ex_pass
      and timeOrigin = 1000 and entryScriptSrc = None
      and h = "ex_host\<lparr>performance_entries := [scenario_D_entry]\<rparr>"
      and this = initial_fields and t = ex_tx]
    scenario_D_measurements [where e = ex_first_paint and p = ex_pass
      and timeOrigin = 1000 and entryScriptSrc = None and h = ex_host
      and this = initial_fields and t = ex_tx]
  by (simp add: scenario_D_entry_def ex_first_paint_def ex_pass_def ex_tx_def ex_host_def
      initial_fields_def)

end
